theory Spec2Isabelle
  imports Complex_Main "HOL-Library.Finite_Map" "HOL-Library.Log_Nat"
begin

section \<open>JavaScript values\<close>

text \<open>
  The handlers of \<^verbatim>\<open>src/server.js\<close> and \<^verbatim>\<open>src/api/webhook.js\<close> work on values that come
  out of a JSON parser (the request body, the provider's event) and on objects they build
  themselves.  A number is an IEEE binary64 value; every finite one is a rational, so the
  finite numbers are carried as \<open>rat\<close> (negative zero is identified with zero: both are
  falsy, and a quotient by 100 keeps the sign).  An object is a finite map from property names to values: the program only reads
  properties by name, so the enumeration order of an object is not part of the model.
\<close>

datatype jsnum = Finite rat | PosInfinity | NegInfinity | NotANumber

datatype jsval =
    Undefined
  | Null
  | Bool bool
  | Num jsnum
  | Str string
  | Arr "jsval list"
  | Obj "(string, jsval) fmap"

text \<open>A thrown \<^verbatim>\<open>Error\<close> object: its constructor name and its \<^verbatim>\<open>message\<close>.\<close>

datatype js_error = Err (err_name: string) (message: string)

text \<open>\<^verbatim>\<open>!v\<close> is \<open>\<not> truthy v\<close>.\<close>

fun truthy :: "jsval \<Rightarrow> bool" where
  "truthy Undefined = False"
| "truthy Null = False"
| "truthy (Bool b) = b"
| "truthy (Num (Finite r)) = (r \<noteq> 0)"
| "truthy (Num NotANumber) = False"
| "truthy (Num PosInfinity) = True"
| "truthy (Num NegInfinity) = True"
| "truthy (Str s) = (s \<noteq> [])"
| "truthy (Arr xs) = True"
| "truthy (Obj m) = True"

text \<open>\<^verbatim>\<open>a || b\<close>\<close>

definition js_or :: "jsval \<Rightarrow> jsval \<Rightarrow> jsval" where
  "js_or a b = (if truthy a then a else b)"

definition nullish :: "jsval \<Rightarrow> bool" where
  "nullish v = (v = Undefined \<or> v = Null)"

text \<open>
  The decimal name of an array index, as JavaScript names the indexed properties of an
  array or of a string.
\<close>

definition digit_char :: "nat \<Rightarrow> char" where
  "digit_char d = char_of (48 + d)"

fun index_key :: "nat \<Rightarrow> string" where
  "index_key n = (if n < 10 then [digit_char n] else index_key (n div 10) @ [digit_char (n mod 10)])"

declare index_key.simps [simp del]

text \<open>
  The own enumerable properties of a value: what an object spread \<^verbatim>\<open>{...v}\<close> or a rest
  pattern \<^verbatim>\<open>{k, ...rest} = v\<close> copies.  An object has its properties, an array and a
  string have their indexed elements, every other value has none.
\<close>

definition indexed :: "jsval list \<Rightarrow> (string, jsval) fmap" where
  "indexed xs = fmap_of_list (zip (map index_key [0..<length xs]) xs)"

fun own_props :: "jsval \<Rightarrow> (string, jsval) fmap" where
  "own_props (Obj m) = m"
| "own_props (Arr xs) = indexed xs"
| "own_props (Str s) = indexed (map (\<lambda>c. Str [c]) s)"
| "own_props v = fmempty"

text \<open>
  Reading a property, \<^verbatim>\<open>v.k\<close>: a \<^verbatim>\<open>TypeError\<close> on \<^verbatim>\<open>undefined\<close> and \<^verbatim>\<open>null\<close>, the own
  property when there is one, \<^verbatim>\<open>undefined\<close> otherwise.  Inherited properties
  (\<^verbatim>\<open>length\<close>, the methods of the prototypes) are not modelled: the program reads none.
\<close>

definition quoted :: "string \<Rightarrow> string" where
  "quoted s = [CHR 0x27] @ s @ [CHR 0x27]"

definition which_nullish :: "jsval \<Rightarrow> string" where
  "which_nullish v = (if v = Null then ''null'' else ''undefined'')"

definition get_prop :: "jsval \<Rightarrow> string \<Rightarrow> jsval" where
  "get_prop v k = (case fmlookup (own_props v) k of None \<Rightarrow> Undefined | Some x \<Rightarrow> x)"

definition js_get :: "jsval \<Rightarrow> string \<Rightarrow> js_error + jsval" where
  "js_get v k =
     (if nullish v
      then Inl (Err ''TypeError''
             (''Cannot read properties of '' @ which_nullish v @
              '' (reading '' @ quoted k @ '')''))
      else Inr (get_prop v k))"

text \<open>
  Taking a value apart with a pattern, \<^verbatim>\<open>const { k, ... } = source\<close>, throws this
  \<^verbatim>\<open>TypeError\<close> on \<^verbatim>\<open>undefined\<close> and \<^verbatim>\<open>null\<close>.
\<close>

definition destructure_error :: "string \<Rightarrow> string \<Rightarrow> jsval \<Rightarrow> js_error" where
  "destructure_error k source v =
     Err ''TypeError''
       (''Cannot destructure property '' @ quoted k @ '' of '' @ quoted source @
        '' as it is '' @ which_nullish v @ ''.'')"

section \<open>Numbers: the quotient by 100\<close>

text \<open>
  \<^verbatim>\<open>session.amount_total / 100\<close> is a binary64 division: the exact quotient, rounded to
  the nearest binary64 number, a tie going to the even significand.  A binary64 number is
  \<open>m * 2 ^ e\<close> with an integer \<open>m\<close> below \<open>2 ^ 53\<close> in magnitude and \<open>e\<close> from \<open>- 1074\<close> on;
  a result that reaches \<open>2 ^ 1024\<close> is an infinity.  \<open>floor_log2 x\<close> is the \<open>k\<close> with
  \<open>2 ^ k \<le> x < 2 ^ (k + 1)\<close>, for a positive \<open>x\<close>.
\<close>

definition pow2 :: "int \<Rightarrow> rat" where
  "pow2 k = (if 0 \<le> k then 2 ^ nat k else 1 / 2 ^ nat (- k))"

definition floor_log2 :: "rat \<Rightarrow> int" where
  "floor_log2 x =
     (let n = fst (quotient_of x); d = snd (quotient_of x); k = bitlen n - bitlen d
      in if pow2 k \<le> x then k else k - 1)"

definition round_half_even :: "rat \<Rightarrow> int" where
  "round_half_even y =
     (let f = \<lfloor>y\<rfloor>; r = y - of_int f
      in if r < 1 / 2 then f else if 1 / 2 < r then f + 1 else if even f then f else f + 1)"

definition nearest64 :: "rat \<Rightarrow> rat" where
  "nearest64 x =
     (let e = max (floor_log2 x - 52) (- 1074)
      in of_int (round_half_even (x / pow2 e)) * pow2 e)"

definition binary64 :: "rat \<Rightarrow> jsnum" where
  "binary64 x =
     (if x = 0 then Finite 0
      else if pow2 1024 \<le> nearest64 \<bar>x\<bar> then (if 0 < x then PosInfinity else NegInfinity)
      else Finite (if 0 < x then nearest64 \<bar>x\<bar> else - nearest64 \<bar>x\<bar>))"

text \<open>\<^verbatim>\<open>n / 100\<close> for a number \<open>n\<close>.\<close>

fun quotient_100 :: "jsnum \<Rightarrow> jsnum" where
  "quotient_100 (Finite a) = binary64 (a / 100)"
| "quotient_100 PosInfinity = PosInfinity"
| "quotient_100 NegInfinity = NegInfinity"
| "quotient_100 NotANumber = NotANumber"

section \<open>The environment and the observable effects\<close>

text \<open>
  What the handlers take from outside: the environment variables, the clock, and the
  library calls whose code is not part of the repository.  Each library call is a function
  of its arguments that returns a value or throws.
  \<^item> \<open>constructEvent\<close> is \<^verbatim>\<open>stripe.webhooks.constructEvent(body, sig, secret)\<close>: the
    signature check.  \<open>Inl\<close> is a failed verification, \<open>Inr\<close> the verified event.  Its first
    argument is what the handler has as the body: the raw bytes, or an object that a JSON
    body parser made of them.
  \<^item> \<open>JSON_parse\<close> is \<^verbatim>\<open>JSON.parse\<close>, \<open>sessions_create\<close> is
    \<^verbatim>\<open>stripe.checkout.sessions.create\<close>.
  \<^item> \<open>values_append\<close> is \<^verbatim>\<open>sheets.spreadsheets.values.append\<close>.
  \<^item> \<open>divide\<close> is \<^verbatim>\<open>a / b\<close> when \<open>a\<close> is a string, an array or an object: the quotient
    then rests on the language's conversion of \<open>a\<close> to a number.  On a number,
    \<^verbatim>\<open>undefined\<close>, \<^verbatim>\<open>null\<close> and a boolean the quotient by 100 is computed here
    (\<open>divide_by_100\<close>).
  \<^item> \<open>now_ISO\<close> is \<^verbatim>\<open>new Date().toISOString()\<close>.
\<close>

datatype payload = Raw string | Parsed jsval

record append_request =
  auth_email :: jsval
  auth_key :: jsval
  auth_scopes :: "string list"
  spreadsheetId :: string
  range :: string
  valueInputOption :: string
  rows :: "jsval list list"

record env =
  STRIPE_WEBHOOK_SECRET :: "string option"
  GOOGLE_APPLICATION_CREDENTIALS_JSON :: "string option"
  SPREADSHEET_ID :: "string option"
  constructEvent :: "payload \<Rightarrow> string option \<Rightarrow> string option \<Rightarrow> js_error + jsval"
  JSON_parse :: "string \<Rightarrow> js_error + jsval"
  sessions_create :: "jsval \<Rightarrow> js_error + jsval"
  values_append :: "append_request \<Rightarrow> js_error + jsval"
  divide :: "jsval \<Rightarrow> jsval \<Rightarrow> jsval"
  now_ISO :: string

text \<open>
  What a handler leaves behind: the lines written to the console, the records handed to
  \<^verbatim>\<open>storeDataInGoogleSheets\<close>, the requests sent to the spreadsheet's append operation and
  the requests sent to the payment provider, each in the order of the calls.
\<close>

datatype log_arg = NoArg | Val jsval | Thrown js_error

datatype log_entry = Info string log_arg | Error string log_arg

record world =
  console :: "log_entry list"
  sink_calls :: "jsval list"
  appended :: "append_request list"
  provider_calls :: "jsval list"

definition console_log :: "string \<Rightarrow> log_arg \<Rightarrow> world \<Rightarrow> world" where
  "console_log msg a w = w\<lparr>console := console w @ [Info msg a]\<rparr>"

definition console_error :: "string \<Rightarrow> log_arg \<Rightarrow> world \<Rightarrow> world" where
  "console_error msg a w = w\<lparr>console := console w @ [Error msg a]\<rparr>"

text \<open>
  The response a handler writes, or no response at all: an exception that leaves the
  \<^verbatim>\<open>async\<close> handler rejects its promise, and the handler has written nothing
  (\<open>Threw\<close>, with the exception).
\<close>

datatype resp_body = Text string | Json jsval

record response =
  status :: nat
  body :: resp_body

datatype outcome = Responded response | Threw js_error

text \<open>\<^verbatim>\<open>v / 100\<close>: \<^verbatim>\<open>undefined\<close> counts as not-a-number, \<^verbatim>\<open>null\<close> and \<^verbatim>\<open>false\<close> as 0, \<^verbatim>\<open>true\<close> as 1.\<close>

fun divide_by_100 :: "env \<Rightarrow> jsval \<Rightarrow> jsval" where
  "divide_by_100 e (Num n) = Num (quotient_100 n)"
| "divide_by_100 e Undefined = Num NotANumber"
| "divide_by_100 e Null = Num (quotient_100 (Finite 0))"
| "divide_by_100 e (Bool b) = Num (quotient_100 (Finite (if b then 1 else 0)))"
| "divide_by_100 e v = divide e v (Num (Finite 100))"

text \<open>\<^verbatim>\<open>process.env.X || d\<close>: an unset or empty variable gives the default.\<close>

definition env_or :: "string option \<Rightarrow> string \<Rightarrow> string" where
  "env_or v d = (case v of None \<Rightarrow> d | Some s \<Rightarrow> if s = [] then d else s)"

section \<open>The record sink: \<^verbatim>\<open>storeDataInGoogleSheets\<close>\<close>

text \<open>
  \<^verbatim>\<open>src/server.js\<close> lines 142--202 and \<^verbatim>\<open>src/api/webhook.js\<close> lines 24--84 are the same
  function.  \<open>sheet_row\<close> is the array literal \<^verbatim>\<open>values[0]\<close>: thirteen cells, six read from
  the record as they are and seven read with \<^verbatim>\<open>|| ''\<close>.  The two client objects
  (\<^verbatim>\<open>new google.auth.JWT\<close>, \<^verbatim>\<open>google.sheets\<close>) are built from the credentials without a
  call to the outside; the append request carries the credentials they were given.
\<close>

definition sheet_row :: "jsval \<Rightarrow> jsval list" where
  "sheet_row formData =
     [get_prop formData ''timestamp'',
      get_prop formData ''name'',
      get_prop formData ''email'',
      get_prop formData ''paymentStatus'',
      get_prop formData ''paymentId'',
      get_prop formData ''paymentAmount'',
      js_or (get_prop formData ''preferences'') (Str []),
      js_or (get_prop formData ''notes'') (Str []),
      js_or (get_prop formData ''age'') (Str []),
      js_or (get_prop formData ''primaryConcern'') (Str []),
      js_or (get_prop formData ''additionalConcerns'') (Str []),
      js_or (get_prop formData ''goals'') (Str []),
      js_or (get_prop formData ''photoCount'') (Str [])]"

text \<open>The body of the \<^verbatim>\<open>try\<close> block: the value returned, or the exception thrown.\<close>

definition store_try :: "env \<Rightarrow> jsval \<Rightarrow> world \<Rightarrow> (js_error + jsval) \<times> world" where
  "store_try e formData w =
     (case JSON_parse e (env_or (GOOGLE_APPLICATION_CREDENTIALS_JSON e) ''{}'') of
        Inl err \<Rightarrow> (Inl err, w)
      | Inr credentials \<Rightarrow>
          (case js_get credentials ''client_email'' of
             Inl err \<Rightarrow> (Inl err, w)
           | Inr client_email \<Rightarrow>
               if \<not> truthy client_email \<or> \<not> truthy (get_prop credentials ''private_key'')
               then (Inr Undefined, console_error ''Missing or invalid Google credentials'' NoArg w)
               else if env_or (SPREADSHEET_ID e) [] = []
               then (Inr Undefined, console_error ''Missing spreadsheet ID'' NoArg w)
               else
                 (case js_get formData ''timestamp'' of
                    Inl err \<Rightarrow> (Inl err, w)
                  | Inr _ \<Rightarrow>
                      let req = \<lparr>auth_email = client_email,
                                 auth_key = get_prop credentials ''private_key'',
                                 auth_scopes = [''https://www.googleapis.com/auth/spreadsheets''],
                                 spreadsheetId = env_or (SPREADSHEET_ID e) [],
                                 range = ''Sheet1!A:M'',
                                 valueInputOption = ''USER_ENTERED'',
                                 rows = [sheet_row formData]\<rparr>;
                          w1 = w\<lparr>appended := appended w @ [req]\<rparr>
                      in (case values_append e req of
                            Inl err \<Rightarrow> (Inl err, w1)
                          | Inr resp \<Rightarrow>
                              (case js_get resp ''data'' of
                                 Inl err \<Rightarrow> (Inl err, w1)
                               | Inr d \<Rightarrow>
                                   (Inr d,
                                    console_log ''Data stored in Google Sheets successfully''
                                      (Val d) w1))))))"

text \<open>The \<^verbatim>\<open>catch\<close> block logs the exception and throws it again.\<close>

definition storeDataInGoogleSheets :: "env \<Rightarrow> jsval \<Rightarrow> world \<Rightarrow> (js_error + jsval) \<times> world" where
  "storeDataInGoogleSheets e formData w =
     (case store_try e formData (w\<lparr>sink_calls := sink_calls w @ [formData]\<rparr>) of
        (Inl err, w1) \<Rightarrow>
          (Inl err, console_error ''Error storing data in Google Sheets:'' (Thrown err) w1)
      | (Inr v, w1) \<Rightarrow> (Inr v, w1))"

section \<open>The webhook endpoint\<close>

text \<open>
  The statements between \<^verbatim>\<open>const session = event.data.object\<close> and the end of the
  \<^verbatim>\<open>formData\<close> literal (\<^verbatim>\<open>src/server.js\<close> lines 102--119, \<^verbatim>\<open>src/api/webhook.js\<close> lines
  113--130).  They stand outside every \<^verbatim>\<open>try\<close> block.  The result is the pair of
  \<^verbatim>\<open>customerEmail\<close> and \<^verbatim>\<open>formData\<close>.  The object literal writes the six fixed properties
  first and spreads \<^verbatim>\<open>formMetadata\<close> last, so on a shared name the spread value stays.
\<close>

definition fixed_fields :: "env \<Rightarrow> jsval \<Rightarrow> jsval \<Rightarrow> jsval \<Rightarrow> (string, jsval) fmap" where
  "fixed_fields e session customerName customerEmail =
     fmap_of_list
       [(''name'', customerName),
        (''email'', customerEmail),
        (''paymentStatus'', Str ''completed''),
        (''paymentId'', get_prop session ''payment_intent''),
        (''paymentAmount'', divide_by_100 e (get_prop session ''amount_total'')),
        (''timestamp'', Str (now_ISO e))]"

definition normalize :: "env \<Rightarrow> jsval \<Rightarrow> js_error + (jsval \<times> jsval)" where
  "normalize e event =
     (case js_get (get_prop event ''data'') ''object'' of
        Inl err \<Rightarrow> Inl err
      | Inr session \<Rightarrow>
          (case js_get session ''metadata'' of
             Inl err \<Rightarrow> Inl err
           | Inr metadata \<Rightarrow>
               if nullish metadata
               then Inl (destructure_error ''customerName'' ''session.metadata'' metadata)
               else
                 (case js_get (get_prop session ''customer_details'') ''email'' of
                    Inl err \<Rightarrow> Inl err
                  | Inr customerEmail \<Rightarrow>
                      Inr (customerEmail,
                           Obj (fmadd
                                  (fixed_fields e session (get_prop metadata ''customerName'')
                                     customerEmail)
                                  (fmdrop ''customerName'' (own_props metadata)))))))"

definition acknowledged :: response where
  "acknowledged = \<lparr>status = 200, body = Json (Obj (fmap_of_list [(''received'', Bool True)]))\<rparr>"

definition webhook_error :: "js_error \<Rightarrow> response" where
  "webhook_error err = \<lparr>status = 400, body = Text (''Webhook Error: '' @ message err)\<rparr>"

text \<open>
  The handler from the signature check on (\<^verbatim>\<open>src/server.js\<close> lines 82--138,
  \<^verbatim>\<open>src/api/webhook.js\<close> lines 93--145).  The two have the same statements and differ in
  what they hand to the signature check: \<^verbatim>\<open>src/api/webhook.js\<close> the bytes it read from the
  request itself, \<^verbatim>\<open>src/server.js\<close> its \<^verbatim>\<open>req.body\<close>.  The first \<^verbatim>\<open>try\<close> block holds the
  signature check and the read of \<^verbatim>\<open>event.type\<close> for the log line; the second holds the
  call of the sink only.  \<^verbatim>\<open>src/server.js\<close> goes on, from line 219, with a walkthrough that
  repeats earlier drafts of the same routes; the routes modelled here are the ones
  registered first.
\<close>

definition handle_delivery :: "env \<Rightarrow> payload \<Rightarrow> string option \<Rightarrow> world \<Rightarrow> outcome \<times> world" where
  "handle_delivery e content sig w =
     (case constructEvent e content sig (STRIPE_WEBHOOK_SECRET e) of
        Inl err \<Rightarrow>
          (Responded (webhook_error err),
           console_error ''Webhook signature verification failed:'' (Val (Str (message err))) w)
      | Inr event \<Rightarrow>
          (case js_get event ''type'' of
             Inl err \<Rightarrow>
               (Responded (webhook_error err),
                console_error ''Webhook signature verification failed:''
                  (Val (Str (message err))) w)
           | Inr ty \<Rightarrow>
               let w1 = console_log ''Webhook received:'' (Val ty) w in
               if ty = Str ''checkout.session.completed''
               then
                 (case normalize e event of
                    Inl err \<Rightarrow> (Threw err, w1)
                  | Inr (customerEmail, formData) \<Rightarrow>
                      let w2 = console_log ''Processing completed payment for:''
                                 (Val customerEmail) w1
                      in (case storeDataInGoogleSheets e formData w2 of
                            (Inr _, w3) \<Rightarrow>
                              (Responded acknowledged,
                               console_log ''Payment data successfully processed'' NoArg w3)
                          | (Inl err, w3) \<Rightarrow>
                              (Responded acknowledged,
                               console_error ''Error processing payment data:'' (Thrown err) w3)))
               else (Responded acknowledged, w1)))"

text \<open>
  \<^verbatim>\<open>app.post('/webhook', express.raw(...), ...)\<close> of \<^verbatim>\<open>src/server.js\<close>.  Line 19 mounts
  \<^verbatim>\<open>express.json()\<close> for every route, ahead of this route's \<^verbatim>\<open>express.raw\<close>, and both take the
  same content type.  So the JSON parser has the body first: what it accepts reaches the
  handler as the parsed value in \<^verbatim>\<open>req.body\<close>, what it refuses never reaches the handler,
  and \<^verbatim>\<open>express.raw\<close> leaves a body that is already parsed as it is.  The handler of
  \<^verbatim>\<open>src/server.js\<close> therefore hands the signature check a parsed value, never the raw
  bytes.
\<close>

record parsed_request =
  parsed_body :: jsval
  stripe_signature :: "string option"

definition server_webhook :: "env \<Rightarrow> parsed_request \<Rightarrow> world \<Rightarrow> outcome \<times> world" where
  "server_webhook e req w =
     handle_delivery e (Parsed (parsed_body req)) (stripe_signature req) w"

text \<open>
  \<^verbatim>\<open>handler\<close> of \<^verbatim>\<open>src/api/webhook.js\<close>: it refuses every method but POST and reads the body
  itself, chunk by chunk (\<^verbatim>\<open>getRawBody\<close>), with the platform's body parser switched off.
\<close>

record stream_request =
  http_method :: string
  chunks :: "string list"
  signature_header :: "string option"

definition getRawBody :: "stream_request \<Rightarrow> string" where
  "getRawBody req = concat (chunks req)"

definition api_webhook :: "env \<Rightarrow> stream_request \<Rightarrow> world \<Rightarrow> outcome \<times> world" where
  "api_webhook e req w =
     (if http_method req \<noteq> ''POST''
      then (Responded \<lparr>status = 405, body = Text ''Method Not Allowed''\<rparr>, w)
      else handle_delivery e (Raw (getRawBody req)) (signature_header req) w)"

section \<open>The session creation endpoint\<close>

text \<open>
  \<^verbatim>\<open>app.post('/create-checkout-session', ...)\<close>, \<^verbatim>\<open>src/server.js\<close> lines 27--78.  The
  argument is \<^verbatim>\<open>req.body\<close> as the JSON body parser left it: the parsed value, or
  \<^verbatim>\<open>undefined\<close> when no body was parsed.  The whole handler is one \<^verbatim>\<open>try\<close> block whose
  \<^verbatim>\<open>catch\<close> answers 500 with the message of the exception.
\<close>

definition checkout_params :: "jsval \<Rightarrow> jsval \<Rightarrow> jsval \<Rightarrow> jsval \<Rightarrow> jsval \<Rightarrow> jsval" where
  "checkout_params productName productPrice customerName customerEmail metadata =
     Obj (fmap_of_list
       [(''payment_method_types'', Arr [Str ''card'']),
        (''line_items'',
           Arr [Obj (fmap_of_list
             [(''price_data'',
                 Obj (fmap_of_list
                   [(''currency'', Str ''usd''),
                    (''product_data'', Obj (fmap_of_list [(''name'', productName)])),
                    (''unit_amount'', productPrice)])),
              (''quantity'', Num (Finite 1))])]),
        (''mode'', Str ''payment''),
        (''success_url'', Str ''https://your-framer-site.com/success''),
        (''cancel_url'', Str ''https://your-framer-site.com/cancel''),
        (''customer_email'', customerEmail),
        (''metadata'',
           Obj (fmadd (fmap_of_list [(''customerName'', customerName)]) (own_props metadata)))])"

definition missing_fields :: response where
  "missing_fields =
     \<lparr>status = 400,
      body = Json (Obj (fmap_of_list
        [(''error'',
          Str ''Missing required fields. Please provide productName, productPrice, and customerEmail.'')]))\<rparr>"

definition checkout_failed :: "js_error \<Rightarrow> world \<Rightarrow> outcome \<times> world" where
  "checkout_failed err w =
     (Responded \<lparr>status = 500, body = Json (Obj (fmap_of_list [(''error'', Str (message err))]))\<rparr>,
      console_error ''Error creating checkout session:'' (Thrown err) w)"

definition create_checkout_session :: "env \<Rightarrow> jsval \<Rightarrow> world \<Rightarrow> outcome \<times> world" where
  "create_checkout_session e req_body w =
     (let w0 = console_log ''Received checkout request:'' (Val req_body) w in
      if nullish req_body
      then checkout_failed (destructure_error ''productName'' ''req.body'' req_body) w0
      else
          let productName = get_prop req_body ''productName'';
              productPrice = get_prop req_body ''productPrice'';
              customerName = get_prop req_body ''customerName'';
              customerEmail = get_prop req_body ''customerEmail'';
              metadata = get_prop req_body ''metadata''
          in if \<not> truthy productName \<or> \<not> truthy productPrice \<or> \<not> truthy customerEmail
             then (Responded missing_fields, w0)
             else
               let params = checkout_params productName productPrice customerName
                              customerEmail metadata;
                   w1 = w0\<lparr>provider_calls := provider_calls w0 @ [params]\<rparr>
               in (case sessions_create e params of
                     Inl err \<Rightarrow> checkout_failed err w1
                   | Inr session \<Rightarrow>
                       (case js_get session ''id'' of
                          Inl err \<Rightarrow> checkout_failed err w1
                        | Inr sid \<Rightarrow>
                            (Responded
                               \<lparr>status = 200,
                                body = Json (Obj (fmap_of_list
                                  [(''checkoutUrl'', get_prop session ''url'')]))\<rparr>,
                             console_log ''Checkout session created:'' (Val sid) w1))))"

section \<open>Concrete deliveries and requests\<close>

text \<open>
  A concrete environment on which the handlers can be run: a signature check that accepts
  one signature under one secret over the raw bytes, knows the event of each signed body
  and refuses a parsed body, a credentials variable that parses to a service account, and
  a provider and a spreadsheet that answer.
\<close>

definition priced_event :: "jsval \<Rightarrow> jsval \<Rightarrow> jsval \<Rightarrow> jsval" where
  "priced_event amount_total metadata customer_details =
     Obj (fmap_of_list
       [(''type'', Str ''checkout.session.completed''),
        (''data'', Obj (fmap_of_list
           [(''object'', Obj (fmap_of_list
              [(''id'', Str ''cs_1''),
               (''metadata'', metadata),
               (''customer_details'', customer_details),
               (''payment_intent'', Str ''pi_1''),
               (''amount_total'', amount_total)]))]))])"

definition checkout_event :: "jsval \<Rightarrow> jsval \<Rightarrow> jsval" where
  "checkout_event metadata customer_details =
     priced_event (Num (Finite 5000)) metadata customer_details"

definition ann_event :: jsval where
  "ann_event =
     checkout_event
       (Obj (fmap_of_list [(''customerName'', Str ''Ann''), (''notes'', Str ''vip'')]))
       (Obj (fmap_of_list [(''email'', Str ''ann@x.com'')]))"

definition bob_metadata :: jsval where
  "bob_metadata =
     Obj (fmap_of_list
       [(''customerName'', Str ''Ann''), (''name'', Str ''Bob''), (''color'', Str ''red'')])"

definition bob_event :: jsval where
  "bob_event = checkout_event bob_metadata (Obj (fmap_of_list [(''email'', Str ''ann@x.com'')]))"

definition no_details_event :: jsval where
  "no_details_event = checkout_event (Obj (fmap_of_list [(''customerName'', Str ''Ann'')])) Null"

definition no_email_event :: jsval where
  "no_email_event =
     checkout_event (Obj (fmap_of_list [(''customerName'', Str ''Ann'')])) (Obj fmempty)"

definition odd_cents_event :: jsval where
  "odd_cents_event =
     priced_event (Num (Finite 2999))
       (Obj (fmap_of_list [(''customerName'', Str ''Ann'')]))
       (Obj (fmap_of_list [(''email'', Str ''ann@x.com'')]))"

definition gift_event :: jsval where
  "gift_event =
     checkout_event
       (Obj (fmap_of_list [(''customerName'', Str ''Ann''), (''paymentAmount'', Str ''free'')]))
       (Obj (fmap_of_list [(''email'', Str ''ann@x.com'')]))"

definition created_event :: jsval where
  "created_event =
     Obj (fmap_of_list
       [(''type'', Str ''payment_intent.created''),
        (''data'', Obj (fmap_of_list [(''object'', Obj (fmap_of_list [(''id'', Str ''pi_1'')]))]))])"

definition signed_bodies :: "(string \<times> jsval) list" where
  "signed_bodies =
     [(''evt_ann'', ann_event),
      (''evt_bob'', bob_event),
      (''evt_no_details'', no_details_event),
      (''evt_no_email'', no_email_event),
      (''evt_created'', created_event),
      (''evt_odd_cents'', odd_cents_event),
      (''evt_gift'', gift_event)]"

definition signature_mismatch :: js_error where
  "signature_mismatch =
     Err ''StripeSignatureVerificationError''
       ''No signatures found matching the expected signature for payload.''"

definition not_raw :: js_error where
  "not_raw =
     Err ''StripeSignatureVerificationError''
       ''Webhook payload must be provided as a string or a Buffer instance.''"

fun verify_signed :: "payload \<Rightarrow> string option \<Rightarrow> string option \<Rightarrow> js_error + jsval" where
  "verify_signed (Raw rawBody) sig secret =
     (if sig = Some ''t=1,v1=good'' \<and> secret = Some ''whsec_test''
      then (case map_of signed_bodies rawBody of
              Some event \<Rightarrow> Inr event
            | None \<Rightarrow> Inl signature_mismatch)
      else Inl signature_mismatch)"
| "verify_signed (Parsed v) sig secret = Inl not_raw"

definition parse_credentials :: "string \<Rightarrow> js_error + jsval" where
  "parse_credentials s =
     (if s = ''service-account''
      then Inr (Obj (fmap_of_list
             [(''client_email'', Str ''sink@project.iam.gserviceaccount.com''),
              (''private_key'', Str ''key-material'')]))
      else if s = ''{}'' then Inr (Obj fmempty)
      else Inl (Err ''SyntaxError'' ''Unexpected token in JSON''))"

definition shop_session :: jsval where
  "shop_session =
     Obj (fmap_of_list
       [(''id'', Str ''cs_1''), (''url'', Str ''https://checkout.stripe.com/c/pay/cs_1'')])"

definition shop_env :: env where
  "shop_env =
     \<lparr>STRIPE_WEBHOOK_SECRET = Some ''whsec_test'',
      GOOGLE_APPLICATION_CREDENTIALS_JSON = Some ''service-account'',
      SPREADSHEET_ID = Some ''sheet_1'',
      constructEvent = verify_signed,
      JSON_parse = parse_credentials,
      sessions_create = (\<lambda>params. Inr shop_session),
      values_append =
        (\<lambda>req. Inr (Obj (fmap_of_list
           [(''data'', Obj (fmap_of_list [(''updatedRows'', Num (Finite 1))]))]))),
      divide = (\<lambda>a b. Num NotANumber),
      now_ISO = ''2024-01-01T00:00:00.000Z''\<rparr>"

definition quiet :: world where
  "quiet = \<lparr>console = [], sink_calls = [], appended = [], provider_calls = []\<rparr>"

definition good_signature :: "string option" where
  "good_signature = Some ''t=1,v1=good''"

fun is_error :: "log_entry \<Rightarrow> bool" where
  "is_error (Error msg a) = True"
| "is_error (Info msg a) = False"

definition zero_price_order :: jsval where
  "zero_price_order =
     Obj (fmap_of_list
       [(''productName'', Str ''Plan''),
        (''productPrice'', Num (Finite 0)),
        (''customerEmail'', Str ''ann@x.com'')])"

definition plan_order :: jsval where
  "plan_order =
     Obj (fmap_of_list
       [(''productName'', Str ''Plan''),
        (''productPrice'', Num (Finite 2999)),
        (''customerName'', Str ''Ann''),
        (''customerEmail'', Str ''ann@x.com''),
        (''metadata'', Obj (fmap_of_list [(''notes'', Str ''vip'')]))])"

definition no_email_order :: jsval where
  "no_email_order =
     Obj (fmap_of_list [(''productName'', Str ''Plan''), (''productPrice'', Num (Finite 2999))])"

text \<open>The same shop when the provider refuses the session.\<close>

definition declining_env :: env where
  "declining_env =
     shop_env\<lparr>sessions_create :=
       (\<lambda>params. Inl (Err ''StripeInvalidRequestError'' ''Invalid integer: 29.99''))\<rparr>"

text \<open>The record of the specification's scenario.\<close>

definition ann_record :: jsval where
  "ann_record =
     Obj (fmap_of_list
       [(''name'', Str ''Ann''),
        (''email'', Str ''ann@x.com''),
        (''paymentStatus'', Str ''completed''),
        (''paymentId'', Str ''pi_1''),
        (''paymentAmount'', Num (Finite 50)),
        (''notes'', Str ''vip''),
        (''timestamp'', Str ''2024-01-01T00:00:00.000Z'')])"

text \<open>
  A delivery with the good signature to each endpoint, from a silent start: the bytes
  to \<^verbatim>\<open>src/api/webhook.js\<close>, the parsed body to \<^verbatim>\<open>src/server.js\<close>.
\<close>

definition deliver_api :: "string \<Rightarrow> outcome \<times> world" where
  "deliver_api rawBody =
     api_webhook shop_env
       \<lparr>http_method = ''POST'', chunks = [rawBody], signature_header = good_signature\<rparr> quiet"

definition deliver_server :: "jsval \<Rightarrow> outcome \<times> world" where
  "deliver_server parsed =
     server_webhook shop_env \<lparr>parsed_body = parsed, stripe_signature = good_signature\<rparr> quiet"

section \<open>What the handlers leave behind\<close>

text \<open>Writing to the console touches nothing but the console.\<close>

lemma console_log_fields [simp]:
  "sink_calls (console_log m a w) = sink_calls w"
  "appended (console_log m a w) = appended w"
  "provider_calls (console_log m a w) = provider_calls w"
  "console (console_log m a w) = console w @ [Info m a]"
  by (simp_all add: console_log_def)

lemma console_error_fields [simp]:
  "sink_calls (console_error m a w) = sink_calls w"
  "appended (console_error m a w) = appended w"
  "provider_calls (console_error m a w) = provider_calls w"
  "console (console_error m a w) = console w @ [Error m a]"
  by (simp_all add: console_error_def)

text \<open>The sink records its call once and sends at most one row.\<close>

lemma store_try_sink_calls: "sink_calls (snd (store_try e fd w)) = sink_calls w"
  by (simp add: store_try_def Let_def split: sum.splits)

lemma store_try_provider_calls: "provider_calls (snd (store_try e fd w)) = provider_calls w"
  by (simp add: store_try_def Let_def split: sum.splits)

lemma store_try_appended:
  "appended (snd (store_try e fd w)) = appended w \<or>
   (\<exists>req. appended (snd (store_try e fd w)) = appended w @ [req] \<and> rows req = [sheet_row fd]
      \<and> range req = ''Sheet1!A:M'')"
  by (simp add: store_try_def Let_def split: sum.splits)

lemma store_snd:
  "sink_calls (snd (storeDataInGoogleSheets e fd w)) = sink_calls w @ [fd]"
  "provider_calls (snd (storeDataInGoogleSheets e fd w)) = provider_calls w"
  "appended (snd (storeDataInGoogleSheets e fd w)) =
     appended (snd (store_try e fd (w\<lparr>sink_calls := sink_calls w @ [fd]\<rparr>)))"
  using store_try_sink_calls [of e fd "w\<lparr>sink_calls := sink_calls w @ [fd]\<rparr>"]
        store_try_provider_calls [of e fd "w\<lparr>sink_calls := sink_calls w @ [fd]\<rparr>"]
  by (auto simp: storeDataInGoogleSheets_def split: prod.splits sum.splits)

text \<open>The four ways through the webhook handler.\<close>

lemma handle_unverified:
  "constructEvent e b sg (STRIPE_WEBHOOK_SECRET e) = Inl err \<Longrightarrow>
   handle_delivery e b sg w =
     (Responded (webhook_error err),
      console_error ''Webhook signature verification failed:'' (Val (Str (message err))) w)"
  by (simp add: handle_delivery_def)

lemma handle_other_kind:
  "constructEvent e b sg (STRIPE_WEBHOOK_SECRET e) = Inr event \<Longrightarrow>
   js_get event ''type'' = Inr ty \<Longrightarrow> ty \<noteq> Str ''checkout.session.completed'' \<Longrightarrow>
   handle_delivery e b sg w = (Responded acknowledged, console_log ''Webhook received:'' (Val ty) w)"
  by (simp add: handle_delivery_def)

lemma handle_not_normalized:
  "constructEvent e b sg (STRIPE_WEBHOOK_SECRET e) = Inr event \<Longrightarrow>
   js_get event ''type'' = Inr (Str ''checkout.session.completed'') \<Longrightarrow>
   normalize e event = Inl err \<Longrightarrow>
   handle_delivery e b sg w =
     (Threw err, console_log ''Webhook received:'' (Val (Str ''checkout.session.completed'')) w)"
  by (simp add: handle_delivery_def)

lemma handle_completed:
  assumes "constructEvent e b sg (STRIPE_WEBHOOK_SECRET e) = Inr event"
    and "js_get event ''type'' = Inr (Str ''checkout.session.completed'')"
    and "normalize e event = Inr (mail, fd)"
  shows "fst (handle_delivery e b sg w) = Responded acknowledged"
    and "sink_calls (snd (handle_delivery e b sg w)) = sink_calls w @ [fd]"
    and "provider_calls (snd (handle_delivery e b sg w)) = provider_calls w"
proof -
  let ?w2 = "console_log ''Processing completed payment for:'' (Val mail)
               (console_log ''Webhook received:'' (Val (Str ''checkout.session.completed'')) w)"
  obtain r w3 where st: "storeDataInGoogleSheets e fd ?w2 = (r, w3)"
    by (cases "storeDataInGoogleSheets e fd ?w2")
  have w3: "sink_calls w3 = sink_calls w @ [fd]" "provider_calls w3 = provider_calls w"
    using store_snd(1,2) [of e fd ?w2] st by simp_all
  have hd: "handle_delivery e b sg w =
      (case r of Inr v \<Rightarrow> (Responded acknowledged, console_log ''Payment data successfully processed'' NoArg w3)
               | Inl err \<Rightarrow> (Responded acknowledged, console_error ''Error processing payment data:'' (Thrown err) w3))"
    using assms st by (simp add: handle_delivery_def Let_def split: sum.splits)
  show "fst (handle_delivery e b sg w) = Responded acknowledged"
    by (simp add: hd split: sum.splits)
  show "sink_calls (snd (handle_delivery e b sg w)) = sink_calls w @ [fd]"
    by (simp add: hd w3 split: sum.splits)
  show "provider_calls (snd (handle_delivery e b sg w)) = provider_calls w"
    by (simp add: hd w3 split: sum.splits)
qed

lemma api_webhook_post:
  "http_method req = ''POST'' \<Longrightarrow>
   api_webhook e req w = handle_delivery e (Raw (concat (chunks req))) (signature_header req) w"
  by (simp add: api_webhook_def getRawBody_def)

text \<open>When normalization returns, it returns this record; on this shape it returns.\<close>

lemma normalize_record:
  assumes "normalize e event = Inr (mail, fd)"
  shows "\<not> nullish (get_prop (get_prop (get_prop event ''data'') ''object'') ''metadata'') \<and>
         mail = get_prop (get_prop (get_prop (get_prop event ''data'') ''object'') ''customer_details'') ''email'' \<and>
         fd = Obj (fmadd
                (fixed_fields e (get_prop (get_prop event ''data'') ''object'')
                   (get_prop (get_prop (get_prop (get_prop event ''data'') ''object'') ''metadata'') ''customerName'') mail)
                (fmdrop ''customerName''
                   (own_props (get_prop (get_prop (get_prop event ''data'') ''object'') ''metadata''))))"
  using assms
  by (auto simp: normalize_def js_get_def split: if_splits sum.splits)

lemma normalize_shape:
  assumes "\<not> nullish (get_prop session ''metadata'')"
    and "\<not> nullish (get_prop session ''customer_details'')"
    and "session = get_prop (get_prop event ''data'') ''object''"
  shows "normalize e event =
     Inr (get_prop (get_prop session ''customer_details'') ''email'',
          Obj (fmadd
                (fixed_fields e session (get_prop (get_prop session ''metadata'') ''customerName'')
                   (get_prop (get_prop session ''customer_details'') ''email''))
                (fmdrop ''customerName'' (own_props (get_prop session ''metadata'')))))"
proof -
  have s: "\<not> nullish session"
    using assms(1) by (auto simp: nullish_def get_prop_def)
  have d: "\<not> nullish (get_prop event ''data'')"
    using s assms(3) by (auto simp: nullish_def get_prop_def)
  show ?thesis
    using assms s d by (simp add: normalize_def js_get_def)
qed

text \<open>The sink is behind the signature check and the test of the event type.\<close>

lemma handle_gate:
  assumes "sink_calls (snd (handle_delivery e b sg w)) \<noteq> sink_calls w \<or>
           appended (snd (handle_delivery e b sg w)) \<noteq> appended w"
  shows "\<exists>event. constructEvent e b sg (STRIPE_WEBHOOK_SECRET e) = Inr event \<and>
           js_get event ''type'' = Inr (Str ''checkout.session.completed'')"
proof (cases "constructEvent e b sg (STRIPE_WEBHOOK_SECRET e)")
  case (Inl err)
  from handle_unverified [OF this, of w] assms show ?thesis by simp
next
  case (Inr event)
  show ?thesis
  proof (cases "js_get event ''type''")
    case (Inl err)
    with Inr assms show ?thesis by (simp add: handle_delivery_def)
  next
    case ty: (Inr ty)
    show ?thesis
    proof (cases "ty = Str ''checkout.session.completed''")
      case True
      with Inr ty show ?thesis by simp
    next
      case False
      from handle_other_kind [OF Inr ty False, of w] assms show ?thesis by simp
    qed
  qed
qed

section \<open>The rounding of the quotient\<close>

text \<open>
  The logarithm is the right one, the rounding moves a value by at most half a unit in the
  last place, an integer below \<open>2 ^ 53\<close> is a binary64 number, and in the normal range the
  rounded value is within the relative error \<open>2 ^ - 53\<close>.
\<close>

lemma pow2_powi: "pow2 k = 2 powi k"
  by (simp add: pow2_def power_int_def field_simps)

lemma pow2_pos [simp]: "0 < pow2 k"
  by (simp add: pow2_def)

lemma pow2_nonzero [simp]: "pow2 k \<noteq> 0"
  by (simp add: pow2_def)

lemma pow2_add: "pow2 (a + b) = pow2 a * pow2 b"
  by (simp add: pow2_powi power_int_add)

lemma pow2_mono: "a \<le> b \<Longrightarrow> pow2 a \<le> pow2 b"
  by (simp add: pow2_powi power_int_increasing)

lemma pow2_nat: "pow2 (int n) = 2 ^ n"
  by (simp add: pow2_def)

lemma floor_log2_bounds:
  assumes "0 < x"
  shows "pow2 (floor_log2 x) \<le> x \<and> x < pow2 (floor_log2 x + 1)"
proof -
  obtain n d where q: "quotient_of x = (n, d)" by (cases "quotient_of x")
  have d: "0 < d" using q by (rule quotient_of_denom_pos)
  have x: "x = of_int n / of_int d" using q by (rule quotient_of_div)
  have n: "0 < n" using assms d x by (simp add: zero_less_divide_iff)
  define k where "k = bitlen n - bitlen d"
  have bn: "2 ^ nat (bitlen n - 1) \<le> n" "n < 2 ^ nat (bitlen n)"
    using bitlen_bounds [OF n] by simp_all
  have bd: "2 ^ nat (bitlen d - 1) \<le> d" "d < 2 ^ nat (bitlen d)"
    using bitlen_bounds [OF d] by simp_all
  have ln: "1 \<le> bitlen n" using n bitlen_eq_zero_iff [of n] bitlen_nonneg [of n] by linarith
  have ld: "1 \<le> bitlen d" using d bitlen_eq_zero_iff [of d] bitlen_nonneg [of d] by linarith
  have rn: "pow2 (bitlen n - 1) \<le> of_int n" "(of_int n :: rat) < pow2 (bitlen n)"
  proof -
    have "(of_int (2 ^ nat (bitlen n - 1)) :: rat) \<le> of_int n"
      using bn(1) by (simp only: of_int_le_iff)
    then show "pow2 (bitlen n - 1) \<le> of_int n"
      using ln by (simp add: pow2_def)
    have "(of_int n :: rat) < of_int (2 ^ nat (bitlen n))"
      using bn(2) by (simp only: of_int_less_iff)
    then show "(of_int n :: rat) < pow2 (bitlen n)"
      using ln by (simp add: pow2_def)
  qed
  have rd: "pow2 (bitlen d - 1) \<le> of_int d" "(of_int d :: rat) < pow2 (bitlen d)"
  proof -
    have "(of_int (2 ^ nat (bitlen d - 1)) :: rat) \<le> of_int d"
      using bd(1) by (simp only: of_int_le_iff)
    then show "pow2 (bitlen d - 1) \<le> of_int d"
      using ld by (simp add: pow2_def)
    have "(of_int d :: rat) < of_int (2 ^ nat (bitlen d))"
      using bd(2) by (simp only: of_int_less_iff)
    then show "(of_int d :: rat) < pow2 (bitlen d)"
      using ld by (simp add: pow2_def)
  qed
  have up: "x < pow2 (k + 1)"
  proof -
    have "pow2 (bitlen n) = pow2 (k + 1) * pow2 (bitlen d - 1)"
      unfolding pow2_add [symmetric] k_def by simp
    with rn(2) have "of_int n < pow2 (k + 1) * pow2 (bitlen d - 1)" by simp
    also have "\<dots> \<le> pow2 (k + 1) * of_int d"
      using rd(1) by (simp add: mult_left_mono less_imp_le)
    finally show ?thesis
      using d by (simp add: x pos_divide_less_eq)
  qed
  have lo: "pow2 (k - 1) \<le> x"
  proof -
    have "pow2 (k - 1) * of_int d \<le> pow2 (k - 1) * pow2 (bitlen d)"
      using rd(2) by (simp add: mult_left_mono less_imp_le)
    also have "\<dots> = pow2 (bitlen n - 1)"
      unfolding pow2_add [symmetric] k_def by simp
    also have "\<dots> \<le> of_int n" by (rule rn(1))
    finally show ?thesis
      using d by (simp add: x pos_le_divide_eq)
  qed
  have fl: "floor_log2 x = (if pow2 k \<le> x then k else k - 1)"
    by (simp add: floor_log2_def q k_def Let_def)
  show ?thesis
  proof (cases "pow2 k \<le> x")
    case True
    with fl up show ?thesis by simp
  next
    case False
    with fl lo show ?thesis by simp
  qed
qed

lemma round_half_even_error: "\<bar>of_int (round_half_even y) - y\<bar> \<le> 1 / 2"
proof -
  define f where "f = \<lfloor>y\<rfloor>"
  have f: "of_int f \<le> y" "y < of_int f + 1"
    unfolding f_def by linarith+
  have "round_half_even y =
      (if y - of_int f < 1 / 2 then f else if 1 / 2 < y - of_int f then f + 1
       else if even f then f else f + 1)"
    by (simp add: round_half_even_def Let_def f_def)
  with f show ?thesis
    by (auto simp: abs_if)
qed

lemma round_half_even_of_int [simp]: "round_half_even (of_int n) = n"
  by (simp add: round_half_even_def)

lemma nearest64_of_int:
  assumes "1 \<le> k" and "k < 2 ^ 53"
  shows "nearest64 (of_int k) = of_int k"
proof -
  define x :: rat where "x = of_int k"
  have x1: "1 \<le> x" using assms(1) by (simp add: x_def)
  have "x < of_int (2 ^ 53)"
    unfolding x_def using assms(2) by (simp only: of_int_less_iff)
  then have x53: "x < pow2 53" by (simp add: pow2_def)
  define j where "j = floor_log2 x"
  have b: "pow2 j \<le> x" "x < pow2 (j + 1)"
    using floor_log2_bounds [of x] x1 by (simp_all add: j_def)
  have j0: "0 \<le> j"
  proof (rule ccontr)
    assume "\<not> 0 \<le> j"
    then have "j + 1 \<le> 0" by simp
    from pow2_mono [OF this] b(2) x1 show False by (simp add: pow2_def)
  qed
  have j52: "j \<le> 52"
  proof (rule ccontr)
    assume "\<not> j \<le> 52"
    then have "53 \<le> j" by simp
    from pow2_mono [OF this] b(1) x53 show False by simp
  qed
  have e: "max (j - 52) (- 1074) = j - 52" using j0 by simp
  have p: "pow2 (j - 52) = 1 / 2 ^ nat (52 - j)"
    using j52 by (auto simp: pow2_def)
  have y: "x / pow2 (j - 52) = of_int (k * 2 ^ nat (52 - j))"
    by (simp add: p x_def)
  have "of_int (round_half_even (x / pow2 (j - 52))) * pow2 (j - 52) = x"
    unfolding y round_half_even_of_int by (simp add: p x_def)
  then show ?thesis
    by (simp add: nearest64_def Let_def x_def [symmetric] j_def [symmetric] e)
qed

lemma binary64_of_int:
  assumes "\<bar>k\<bar> < 2 ^ 53"
  shows "binary64 (of_int k) = Finite (of_int k)"
proof (cases "k = 0")
  case True
  then show ?thesis by (simp add: binary64_def)
next
  case False
  have a: "1 \<le> \<bar>k\<bar>" using False by simp
  have n: "nearest64 \<bar>of_int k\<bar> = of_int \<bar>k\<bar>"
    using nearest64_of_int [OF a assms] by simp
  have "(of_int \<bar>k\<bar> :: rat) < of_int (2 ^ 1024)"
    using assms by (simp only: of_int_less_iff) (simp add: less_trans [OF assms])
  then have lt: "\<not> pow2 1024 \<le> of_int \<bar>k\<bar>"
    by (simp add: pow2_def)
  have z: "(of_int k :: rat) \<noteq> 0" "(0 < (of_int k :: rat)) = (0 < k)"
    using False by simp_all
  show ?thesis
    unfolding binary64_def n using lt z by (simp add: abs_if)
qed

lemma nearest64_error:
  assumes "pow2 (- 1022) \<le> x"
  shows "\<bar>nearest64 x - x\<bar> \<le> x / 2 ^ 53"
proof -
  have x0: "0 < x" using assms pow2_pos [of "- 1022"] by linarith
  define j where "j = floor_log2 x"
  have b: "pow2 j \<le> x" "x < pow2 (j + 1)"
    using floor_log2_bounds [OF x0] by (simp_all add: j_def)
  have j: "- 1022 \<le> j"
  proof (rule ccontr)
    assume "\<not> - 1022 \<le> j"
    then have "j + 1 \<le> - 1022" by simp
    from pow2_mono [OF this] b(2) assms show False by simp
  qed
  have e: "max (j - 52) (- 1074) = j - 52" using j by simp
  define m where "m = round_half_even (x / pow2 (j - 52))"
  have n: "nearest64 x = of_int m * pow2 (j - 52)"
    by (simp add: nearest64_def Let_def j_def [symmetric] e m_def)
  have "\<bar>of_int m - x / pow2 (j - 52)\<bar> \<le> 1 / 2"
    unfolding m_def by (rule round_half_even_error)
  then have "\<bar>of_int m - x / pow2 (j - 52)\<bar> * pow2 (j - 52) \<le> 1 / 2 * pow2 (j - 52)"
    by (rule mult_right_mono) (simp add: less_imp_le)
  moreover have "\<bar>of_int m - x / pow2 (j - 52)\<bar> * pow2 (j - 52) =
      \<bar>of_int m * pow2 (j - 52) - x\<bar>"
  proof -
    have "\<bar>of_int m - x / pow2 (j - 52)\<bar> * pow2 (j - 52) =
        \<bar>(of_int m - x / pow2 (j - 52)) * pow2 (j - 52)\<bar>"
      using pow2_pos [of "j - 52"] by (simp add: abs_mult abs_of_pos)
    also have "(of_int m - x / pow2 (j - 52)) * pow2 (j - 52) = of_int m * pow2 (j - 52) - x"
      using pow2_nonzero [of "j - 52"] by (simp add: left_diff_distrib)
    finally show ?thesis .
  qed
  ultimately have "\<bar>of_int m * pow2 (j - 52) - x\<bar> \<le> pow2 (j - 52) / 2"
    by simp
  also have "pow2 (j - 52) / 2 = pow2 j / 2 ^ 53"
  proof -
    have "pow2 j = pow2 (j - 52) * pow2 52"
      unfolding pow2_add [symmetric] by simp
    then show ?thesis by (simp add: pow2_def)
  qed
  also have "\<dots> \<le> x / 2 ^ 53"
    using b(1) by (simp add: divide_right_mono)
  finally show ?thesis by (simp add: n)
qed

lemma binary64_error:
  assumes "pow2 (- 1022) \<le> \<bar>x\<bar>" and "\<bar>x\<bar> < pow2 1023"
  shows "\<exists>q. binary64 x = Finite q \<and> \<bar>q - x\<bar> \<le> \<bar>x\<bar> / 2 ^ 53"
proof -
  have x0: "0 < \<bar>x\<bar>" using assms(1) pow2_pos [of "- 1022"] by linarith
  note err = nearest64_error [OF assms(1)]
  have "nearest64 \<bar>x\<bar> - \<bar>x\<bar> \<le> \<bar>x\<bar> / 2 ^ 53"
    by (rule order_trans [OF abs_ge_self err])
  then have "nearest64 \<bar>x\<bar> \<le> \<bar>x\<bar> + \<bar>x\<bar> / 2 ^ 53"
    by linarith
  also have "\<dots> \<le> \<bar>x\<bar> + \<bar>x\<bar>"
    using x0 by (simp add: field_simps)
  also have "\<dots> < pow2 1023 + pow2 1023"
    using assms(2) by simp
  also have "\<dots> = pow2 1024"
    by (simp add: pow2_def)
  finally have fin: "\<not> pow2 1024 \<le> nearest64 \<bar>x\<bar>" by simp
  show ?thesis
  proof (cases "0 < x")
    case True
    then have "binary64 x = Finite (nearest64 \<bar>x\<bar>)"
      using fin by (simp add: binary64_def)
    moreover have "\<bar>nearest64 \<bar>x\<bar> - x\<bar> \<le> \<bar>x\<bar> / 2 ^ 53"
      using err True by simp
    ultimately show ?thesis by blast
  next
    case False
    with x0 have neg: "x < 0" by simp
    then have "binary64 x = Finite (- nearest64 \<bar>x\<bar>)"
      using fin by (simp add: binary64_def)
    moreover have "\<bar>- nearest64 \<bar>x\<bar> - x\<bar> = \<bar>nearest64 \<bar>x\<bar> - \<bar>x\<bar>\<bar>"
      using neg by (simp add: abs_if)
    ultimately show ?thesis using err by auto
  qed
qed

lemma quotient_of_cents:
  assumes "\<bar>a\<bar> < 2 ^ 53"
  shows "\<exists>q. binary64 (of_int a / 100) = Finite q \<and>
           \<bar>q - of_int a / 100\<bar> \<le> \<bar>of_int a / 100\<bar> / 2 ^ 53"
proof (cases "a = 0")
  case True
  then show ?thesis by (simp add: binary64_def)
next
  case False
  define x :: rat where "x = of_int a / 100"
  have "1 \<le> \<bar>a\<bar>" using False by simp
  then have "(1 :: rat) \<le> of_int \<bar>a\<bar>" by (simp only: of_int_1_le_iff)
  then have lo: "1 / 100 \<le> \<bar>x\<bar>" by (simp add: x_def)
  have "pow2 (- 1022) \<le> pow2 (- 7)" by (rule pow2_mono) simp
  also have "\<dots> \<le> 1 / 100" by (simp add: pow2_def)
  finally have 1: "pow2 (- 1022) \<le> \<bar>x\<bar>" using lo by simp
  have "(of_int \<bar>a\<bar> :: rat) < of_int (2 ^ 53)"
    using assms by (simp only: of_int_less_iff)
  then have "\<bar>x\<bar> < 2 ^ 53" by (simp add: x_def)
  also have "(2 :: rat) ^ 53 = pow2 53" by (simp add: pow2_def)
  also have "pow2 53 \<le> pow2 1023" by (rule pow2_mono) simp
  finally have 2: "\<bar>x\<bar> < pow2 1023" .
  from binary64_error [OF 1 2] show ?thesis by (simp add: x_def)
qed

lemma quotient_of_whole:
  assumes "\<bar>a\<bar> < 2 ^ 53" and "100 dvd a"
  shows "binary64 (of_int a / 100) = Finite (of_int a / 100)"
proof -
  from assms(2) obtain k where k: "a = 100 * k" by (auto elim: dvdE)
  have "\<bar>k\<bar> \<le> \<bar>a\<bar>" by (simp add: k abs_mult)
  with assms(1) have "\<bar>k\<bar> < 2 ^ 53" by simp
  from binary64_of_int [OF this] show ?thesis by (simp add: k)
qed

text \<open>The two quotients of the concrete deliveries.\<close>

lemma binary64_50: "binary64 50 = Finite 50"
  by code_simp

lemma binary64_2999: "binary64 (2999 / 100) = Finite (8441434551552573 / 281474976710656)"
  by code_simp

section \<open>The claims\<close>

text \<open>The definitions to unfold when a handler is run on a concrete input.\<close>

lemmas fixture_defs =
  shop_env_def good_signature_def signed_bodies_def signature_mismatch_def not_raw_def
  ann_event_def bob_event_def bob_metadata_def no_details_event_def no_email_event_def
  created_event_def odd_cents_event_def gift_event_def checkout_event_def priced_event_def
  parse_credentials_def quiet_def shop_session_def

lemmas handler_defs =
  server_webhook_def api_webhook_def getRawBody_def handle_delivery_def normalize_def
  fixed_fields_def storeDataInGoogleSheets_def store_try_def sheet_row_def js_get_def
  get_prop_def nullish_def js_or_def env_or_def console_log_def console_error_def
  acknowledged_def webhook_error_def destructure_error_def quoted_def which_nullish_def

lemmas run_defs = deliver_api_def deliver_server_def fixture_defs handler_defs

text \<open>
  C1.  When the signature check throws (a tampered body, a wrong or missing signature, a
  wrong secret), both webhook endpoints answer with status 400 and the text
  \<^verbatim>\<open>Webhook Error: \<close> followed by the message of the exception, and do nothing else: the
  only effect is one line on the error console, so the sink, the spreadsheet and the
  provider are not called.  A delivery is a POST; the handler of \<^verbatim>\<open>src/api/webhook.js\<close>
  answers 405 to every other method before it reads the body.
\<close>

theorem failed_verification_answers_400:
  "(constructEvent e (Parsed parsed) sg (STRIPE_WEBHOOK_SECRET e) = Inl err \<longrightarrow>
      server_webhook e \<lparr>parsed_body = parsed, stripe_signature = sg\<rparr> w =
        (Responded \<lparr>status = 400, body = Text (''Webhook Error: '' @ message err)\<rparr>,
         w\<lparr>console := console w @
            [Error ''Webhook signature verification failed:'' (Val (Str (message err)))]\<rparr>))
   \<and> (constructEvent e (Raw (concat cs)) sg' (STRIPE_WEBHOOK_SECRET e) = Inl err' \<longrightarrow>
      api_webhook e \<lparr>http_method = ''POST'', chunks = cs, signature_header = sg'\<rparr> w =
        (Responded \<lparr>status = 400, body = Text (''Webhook Error: '' @ message err')\<rparr>,
         w\<lparr>console := console w @
            [Error ''Webhook signature verification failed:'' (Val (Str (message err')))]\<rparr>))"
proof (intro conjI impI)
  assume "constructEvent e (Parsed parsed) sg (STRIPE_WEBHOOK_SECRET e) = Inl err"
  from handle_unverified [OF this, of w]
  show "server_webhook e \<lparr>parsed_body = parsed, stripe_signature = sg\<rparr> w =
        (Responded \<lparr>status = 400, body = Text (''Webhook Error: '' @ message err)\<rparr>,
         w\<lparr>console := console w @
            [Error ''Webhook signature verification failed:'' (Val (Str (message err)))]\<rparr>)"
    by (simp add: server_webhook_def webhook_error_def console_error_def)
next
  assume "constructEvent e (Raw (concat cs)) sg' (STRIPE_WEBHOOK_SECRET e) = Inl err'"
  from handle_unverified [OF this, of w]
  show "api_webhook e \<lparr>http_method = ''POST'', chunks = cs, signature_header = sg'\<rparr> w =
        (Responded \<lparr>status = 400, body = Text (''Webhook Error: '' @ message err')\<rparr>,
         w\<lparr>console := console w @
            [Error ''Webhook signature verification failed:'' (Val (Str (message err')))]\<rparr>)"
    by (simp add: api_webhook_post webhook_error_def console_error_def)
qed

text \<open>
  Ann's delivery with the good signature as \<^verbatim>\<open>src/server.js\<close> has it, parsed, and a
  delivery with a forged signature to \<^verbatim>\<open>src/api/webhook.js\<close>, received in two chunks.
\<close>

theorem failed_verification_answers_400_witness:
  "constructEvent shop_env (Parsed ann_event) good_signature (STRIPE_WEBHOOK_SECRET shop_env) =
     Inl not_raw
   \<and> deliver_server ann_event =
       (Responded \<lparr>status = 400, body = Text (''Webhook Error: '' @ message not_raw)\<rparr>,
        quiet\<lparr>console := console quiet @
           [Error ''Webhook signature verification failed:'' (Val (Str (message not_raw)))]\<rparr>)
   \<and> constructEvent shop_env (Raw (concat [''evt_'', ''ann''])) (Some ''t=1,v1=forged'')
       (STRIPE_WEBHOOK_SECRET shop_env) = Inl signature_mismatch
   \<and> api_webhook shop_env
       \<lparr>http_method = ''POST'', chunks = [''evt_'', ''ann''],
        signature_header = Some ''t=1,v1=forged''\<rparr> quiet =
       (Responded
          \<lparr>status = 400,
           body = Text (''Webhook Error: '' @ message signature_mismatch)\<rparr>,
        quiet\<lparr>console := console quiet @
           [Error ''Webhook signature verification failed:''
              (Val (Str (message signature_mismatch)))]\<rparr>)"
proof -
  have s: "constructEvent shop_env (Parsed ann_event) good_signature
     (STRIPE_WEBHOOK_SECRET shop_env) = Inl not_raw"
    by (simp add: shop_env_def)
  have a: "constructEvent shop_env (Raw (concat [''evt_'', ''ann''])) (Some ''t=1,v1=forged'')
     (STRIPE_WEBHOOK_SECRET shop_env) = Inl signature_mismatch"
    by (simp add: shop_env_def)
  from failed_verification_answers_400
         [of shop_env ann_event good_signature not_raw quiet "[''evt_'', ''ann'']"
             "Some ''t=1,v1=forged''" signature_mismatch]
       s a
  show ?thesis by (simp add: deliver_server_def)
qed

text \<open>
  C6.  If a delivery makes either endpoint call the sink, or send a row to the
  spreadsheet's append operation, then its signature check returned an event and the
  \<^verbatim>\<open>type\<close> of that event is \<^verbatim>\<open>checkout.session.completed\<close>.  So a delivery that fails the
  check, and a verified event of any other type, leave the sink with no call.
\<close>

theorem sink_only_after_verified_checkout:
  "(sink_calls (snd (server_webhook e sreq w)) \<noteq> sink_calls w \<or>
    appended (snd (server_webhook e sreq w)) \<noteq> appended w \<longrightarrow>
      (\<exists>event. constructEvent e (Parsed (parsed_body sreq)) (stripe_signature sreq)
                  (STRIPE_WEBHOOK_SECRET e) = Inr event \<and>
               js_get event ''type'' = Inr (Str ''checkout.session.completed'')))
   \<and> (sink_calls (snd (api_webhook e areq w)) \<noteq> sink_calls w \<or>
      appended (snd (api_webhook e areq w)) \<noteq> appended w \<longrightarrow>
      http_method areq = ''POST'' \<and>
      (\<exists>event. constructEvent e (Raw (getRawBody areq)) (signature_header areq)
                  (STRIPE_WEBHOOK_SECRET e) = Inr event \<and>
               js_get event ''type'' = Inr (Str ''checkout.session.completed'')))"
proof (intro conjI impI)
  assume "sink_calls (snd (server_webhook e sreq w)) \<noteq> sink_calls w \<or>
    appended (snd (server_webhook e sreq w)) \<noteq> appended w"
  then show "\<exists>event. constructEvent e (Parsed (parsed_body sreq)) (stripe_signature sreq)
                  (STRIPE_WEBHOOK_SECRET e) = Inr event \<and>
               js_get event ''type'' = Inr (Str ''checkout.session.completed'')"
    unfolding server_webhook_def by (rule handle_gate)
next
  assume a: "sink_calls (snd (api_webhook e areq w)) \<noteq> sink_calls w \<or>
      appended (snd (api_webhook e areq w)) \<noteq> appended w"
  then show p: "http_method areq = ''POST''"
    by (auto simp: api_webhook_def split: if_splits)
  from a p show "\<exists>event. constructEvent e (Raw (getRawBody areq)) (signature_header areq)
                  (STRIPE_WEBHOOK_SECRET e) = Inr event \<and>
               js_get event ''type'' = Inr (Str ''checkout.session.completed'')"
    by (intro handle_gate [of e _ _ w]) (simp add: api_webhook_def)
qed

text \<open>Ann's delivery: the scenario of the specification.\<close>

lemma ann_verified:
  "constructEvent shop_env (Raw ''evt_ann'') good_signature (STRIPE_WEBHOOK_SECRET shop_env) =
     Inr ann_event"
  by (simp add: shop_env_def good_signature_def signed_bodies_def)

lemma ann_chunks:
  "constructEvent shop_env (Raw (concat [''evt_'', ''ann''])) good_signature
     (STRIPE_WEBHOOK_SECRET shop_env) = Inr ann_event"
  using ann_verified by simp

lemma ann_type: "js_get ann_event ''type'' = Inr (Str ''checkout.session.completed'')"
  by (simp add: ann_event_def checkout_event_def priced_event_def js_get_def get_prop_def
        nullish_def)

lemma ann_metadata_read:
  "get_prop (get_prop (get_prop ann_event ''data'') ''object'') ''metadata'' =
     Obj (fmap_of_list [(''customerName'', Str ''Ann''), (''notes'', Str ''vip'')])"
  by (simp add: ann_event_def checkout_event_def priced_event_def get_prop_def)

lemma ann_amount_read:
  "get_prop (get_prop (get_prop ann_event ''data'') ''object'') ''amount_total'' =
     Num (Finite (of_int 5000))"
  by (simp add: ann_event_def checkout_event_def priced_event_def get_prop_def)

lemma ann_normalized:
  "\<exists>fd. normalize shop_env ann_event = Inr (Str ''ann@x.com'', fd)"
  by (simp add: ann_event_def checkout_event_def priced_event_def normalize_def js_get_def
        get_prop_def nullish_def)

lemma ann_sink_calls:
  "length (sink_calls (snd (deliver_api ''evt_ann''))) = 1"
proof -
  obtain fd where n: "normalize shop_env ann_event = Inr (Str ''ann@x.com'', fd)"
    using ann_normalized by blast
  from handle_completed(2) [OF ann_verified ann_type n, of quiet] show ?thesis
    by (simp add: deliver_api_def api_webhook_post quiet_def)
qed

text \<open>
  Ann's delivery reaches the sink through \<^verbatim>\<open>src/api/webhook.js\<close>; the same delivery as
  \<^verbatim>\<open>src/server.js\<close> has it, parsed, fails the signature check and leaves the sink alone.
\<close>

theorem sink_only_after_verified_checkout_witness:
  "sink_calls (snd (deliver_api ''evt_ann'')) \<noteq> sink_calls quiet
   \<and> (\<exists>event. constructEvent shop_env (Raw ''evt_ann'') good_signature
                  (STRIPE_WEBHOOK_SECRET shop_env) = Inr event \<and>
               js_get event ''type'' = Inr (Str ''checkout.session.completed''))
   \<and> constructEvent shop_env (Parsed ann_event) good_signature
        (STRIPE_WEBHOOK_SECRET shop_env) = Inl not_raw
   \<and> sink_calls (snd (deliver_server ann_event)) = sink_calls quiet
   \<and> appended (snd (deliver_server ann_event)) = appended quiet"
proof -
  have a: "sink_calls (snd (deliver_api ''evt_ann'')) \<noteq> sink_calls quiet"
    using ann_sink_calls by (auto simp: quiet_def)
  have s: "constructEvent shop_env (Parsed ann_event) good_signature
        (STRIPE_WEBHOOK_SECRET shop_env) = Inl not_raw"
    by (simp add: shop_env_def)
  from sink_only_after_verified_checkout
         [of shop_env "\<lparr>parsed_body = ann_event, stripe_signature = good_signature\<rparr>" quiet
             "\<lparr>http_method = ''POST'', chunks = [''evt_ann''], signature_header = good_signature\<rparr>"]
       s a
  show ?thesis by (auto simp: deliver_api_def deliver_server_def getRawBody_def)
qed

text \<open>
  C3 as stated fails: the delivery \<^verbatim>\<open>evt_bob\<close> is verified, its metadata has
  \<^verbatim>\<open>customerName\<close> \<^verbatim>\<open>Ann\<close> and a key \<^verbatim>\<open>name\<close> of its own, and the record handed to the sink
  has the name \<^verbatim>\<open>Bob\<close>.
\<close>

theorem reserved_name_counterexample:
  "constructEvent shop_env (Raw ''evt_bob'') good_signature (STRIPE_WEBHOOK_SECRET shop_env) =
     Inr bob_event
   \<and> js_get bob_event ''type'' = Inr (Str ''checkout.session.completed'')
   \<and> get_prop (get_prop (get_prop bob_event ''data'') ''object'') ''metadata'' = bob_metadata
   \<and> get_prop bob_metadata ''customerName'' = Str ''Ann''
   \<and> length (sink_calls (snd (deliver_api ''evt_bob''))) = 1
   \<and> get_prop (hd (sink_calls (snd (deliver_api ''evt_bob'')))) ''name'' = Str ''Bob''"
  by (simp add: run_defs Let_def binary64_50)

text \<open>
  C3, amended.  For a verified \<^verbatim>\<open>checkout.session.completed\<close> event whose normalization
  returns, both endpoints hand the record to the sink, and the record has the value of the
  metadata key \<^verbatim>\<open>customerName\<close> as its \<^verbatim>\<open>name\<close> unless the metadata has a key \<^verbatim>\<open>name\<close> of
  its own; it has no property \<^verbatim>\<open>customerName\<close>; and every other metadata key is in the
  record with its value unchanged.
\<close>

theorem record_passes_metadata_through:
  assumes "js_get event ''type'' = Inr (Str ''checkout.session.completed'')"
    and "normalize e event = Inr (mail, formData)"
    and "metadata = get_prop (get_prop (get_prop event ''data'') ''object'') ''metadata''"
  shows "(constructEvent e (Parsed parsed) sg (STRIPE_WEBHOOK_SECRET e) = Inr event \<longrightarrow>
            sink_calls (snd (server_webhook e \<lparr>parsed_body = parsed, stripe_signature = sg\<rparr> w)) =
              sink_calls w @ [formData])
       \<and> (constructEvent e (Raw (concat cs)) sg' (STRIPE_WEBHOOK_SECRET e) = Inr event \<longrightarrow>
            sink_calls (snd (api_webhook e
               \<lparr>http_method = ''POST'', chunks = cs, signature_header = sg'\<rparr> w)) =
              sink_calls w @ [formData])
       \<and> (fmlookup (own_props metadata) ''name'' = None \<longrightarrow>
            get_prop formData ''name'' = get_prop metadata ''customerName'')
       \<and> fmlookup (own_props formData) ''customerName'' = None
       \<and> (\<forall>k v. k \<noteq> ''customerName'' \<and> fmlookup (own_props metadata) k = Some v \<longrightarrow>
            fmlookup (own_props formData) k = Some v)"
proof -
  from normalize_record [OF assms(2)] assms(3)
  have fd: "formData = Obj (fmadd
                (fixed_fields e (get_prop (get_prop event ''data'') ''object'')
                   (get_prop metadata ''customerName'') mail)
                (fmdrop ''customerName'' (own_props metadata)))"
    by simp
  have 0: "constructEvent e (Parsed parsed) sg (STRIPE_WEBHOOK_SECRET e) = Inr event \<longrightarrow>
            sink_calls (snd (server_webhook e \<lparr>parsed_body = parsed, stripe_signature = sg\<rparr> w)) =
              sink_calls w @ [formData]"
    using handle_completed(2) [OF _ assms(1,2), where b = "Parsed parsed" and sg = sg and w = w]
    by (simp add: server_webhook_def)
  have 1: "constructEvent e (Raw (concat cs)) sg' (STRIPE_WEBHOOK_SECRET e) = Inr event \<longrightarrow>
            sink_calls (snd (api_webhook e
               \<lparr>http_method = ''POST'', chunks = cs, signature_header = sg'\<rparr> w)) =
              sink_calls w @ [formData]"
    using handle_completed(2) [OF _ assms(1,2), where b = "Raw (concat cs)" and sg = sg' and w = w]
    by (simp add: api_webhook_post)
  have 2: "fmlookup (own_props metadata) ''name'' = None \<longrightarrow>
            get_prop formData ''name'' = get_prop metadata ''customerName''"
    by (simp add: fd get_prop_def fixed_fields_def fmlookup_dom_iff)
  have 3: "fmlookup (own_props formData) ''customerName'' = None"
    by (simp add: fd fixed_fields_def fmlookup_dom_iff)
  have 4: "\<forall>k v. k \<noteq> ''customerName'' \<and> fmlookup (own_props metadata) k = Some v \<longrightarrow>
            fmlookup (own_props formData) k = Some v"
    by (simp add: fd fmlookup_dom_iff)
  from 0 1 2 3 4 show ?thesis by blast
qed

text \<open>Ann's delivery, received in two chunks.\<close>

theorem record_passes_metadata_through_witness:
  "fmlookup (own_props (get_prop (get_prop (get_prop ann_event ''data'') ''object'') ''metadata''))
     ''name'' = None
   \<and> constructEvent shop_env (Raw (concat [''evt_'', ''ann''])) good_signature
       (STRIPE_WEBHOOK_SECRET shop_env) = Inr ann_event
   \<and> length (sink_calls (snd (deliver_api ''evt_ann''))) = 1
   \<and> get_prop (hd (sink_calls (snd (deliver_api ''evt_ann'')))) ''name'' = Str ''Ann''
   \<and> fmlookup (own_props (hd (sink_calls (snd (deliver_api ''evt_ann''))))) ''customerName'' = None
   \<and> fmlookup (own_props (hd (sink_calls (snd (deliver_api ''evt_ann''))))) ''notes'' =
       Some (Str ''vip'')"
proof -
  obtain fd where n: "normalize shop_env ann_event = Inr (Str ''ann@x.com'', fd)"
    using ann_normalized by blast
  note T = record_passes_metadata_through
             [OF ann_type n ann_metadata_read [symmetric],
              of ann_event good_signature quiet "[''evt_'', ''ann'']" good_signature]
  have s: "sink_calls (snd (deliver_api ''evt_ann'')) = [fd]"
    using T ann_chunks ann_verified ann_type n
    by (simp add: deliver_api_def quiet_def api_webhook_post handle_completed(2))
  have m: "fmlookup (own_props (get_prop (get_prop (get_prop ann_event ''data'') ''object'')
             ''metadata'')) ''name'' = None"
    by (simp add: ann_metadata_read)
  have a: "get_prop fd ''name'' = Str ''Ann''"
    using T by (simp add: get_prop_def)
  have b: "fmlookup (own_props fd) ''customerName'' = None"
    using T by simp
  have c: "fmlookup (own_props fd) ''notes'' = Some (Str ''vip'')"
    using T by simp
  from s m a b c ann_chunks show ?thesis by simp
qed

text \<open>
  C10.  For a verified \<^verbatim>\<open>checkout.session.completed\<close> event whose normalization returns,
  a metadata key named like one of the six fixed fields keeps its metadata value in the
  record that both endpoints hand to the sink: the spread of the metadata comes after the
  fixed fields, so the computed value is overridden.
\<close>

theorem metadata_overrides_fixed_field:
  assumes "js_get event ''type'' = Inr (Str ''checkout.session.completed'')"
    and "normalize e event = Inr (mail, formData)"
    and "metadata = get_prop (get_prop (get_prop event ''data'') ''object'') ''metadata''"
    and "k \<in> {''name'', ''email'', ''paymentStatus'', ''paymentId'', ''paymentAmount'', ''timestamp''}"
    and "fmlookup (own_props metadata) k = Some v"
  shows "(constructEvent e (Parsed parsed) sg (STRIPE_WEBHOOK_SECRET e) = Inr event \<longrightarrow>
            sink_calls (snd (server_webhook e \<lparr>parsed_body = parsed, stripe_signature = sg\<rparr> w)) =
              sink_calls w @ [formData])
       \<and> (constructEvent e (Raw (concat cs)) sg' (STRIPE_WEBHOOK_SECRET e) = Inr event \<longrightarrow>
            sink_calls (snd (api_webhook e
               \<lparr>http_method = ''POST'', chunks = cs, signature_header = sg'\<rparr> w)) =
              sink_calls w @ [formData])
       \<and> get_prop formData k = v"
proof -
  from normalize_record [OF assms(2)] assms(3)
  have fd: "formData = Obj (fmadd
                (fixed_fields e (get_prop (get_prop event ''data'') ''object'')
                   (get_prop metadata ''customerName'') mail)
                (fmdrop ''customerName'' (own_props metadata)))"
    by simp
  have k: "k \<noteq> ''customerName''"
    using assms(4) by auto
  have "get_prop formData k = v"
    using assms(5) k by (simp add: fd get_prop_def fmlookup_dom_iff)
  with handle_completed(2) [OF _ assms(1,2), where b = "Parsed parsed" and sg = sg and w = w]
       handle_completed(2) [OF _ assms(1,2), where b = "Raw (concat cs)" and sg = sg' and w = w]
  show ?thesis
    by (simp add: server_webhook_def api_webhook_post)
qed

text \<open>The delivery whose metadata has a key \<^verbatim>\<open>name\<close>.\<close>

lemma bob_verified:
  "constructEvent shop_env (Raw (concat [''evt_bob''])) good_signature
     (STRIPE_WEBHOOK_SECRET shop_env) = Inr bob_event"
  by (simp add: shop_env_def good_signature_def signed_bodies_def)

lemma bob_type: "js_get bob_event ''type'' = Inr (Str ''checkout.session.completed'')"
  by (simp add: bob_event_def checkout_event_def priced_event_def js_get_def get_prop_def
        nullish_def)

lemma bob_metadata_read:
  "bob_metadata = get_prop (get_prop (get_prop bob_event ''data'') ''object'') ''metadata''"
  by (simp add: bob_event_def checkout_event_def priced_event_def get_prop_def)

lemma bob_normalized:
  "\<exists>fd. normalize shop_env bob_event = Inr (Str ''ann@x.com'', fd)"
  by (simp add: bob_event_def bob_metadata_def checkout_event_def priced_event_def normalize_def
        js_get_def get_prop_def nullish_def)

theorem metadata_overrides_fixed_field_witness:
  "fmlookup (own_props bob_metadata) ''name'' = Some (Str ''Bob'')
   \<and> get_prop bob_metadata ''customerName'' = Str ''Ann''
   \<and> constructEvent shop_env (Raw (concat [''evt_bob''])) good_signature
       (STRIPE_WEBHOOK_SECRET shop_env) = Inr bob_event
   \<and> get_prop (hd (sink_calls (snd (deliver_api ''evt_bob'')))) ''name'' = Str ''Bob''"
proof -
  obtain fd where n: "normalize shop_env bob_event = Inr (Str ''ann@x.com'', fd)"
    using bob_normalized by blast
  have k: "''name'' \<in> {''name'', ''email'', ''paymentStatus'', ''paymentId'', ''paymentAmount'', ''timestamp''}"
    by simp
  have m: "fmlookup (own_props bob_metadata) ''name'' = Some (Str ''Bob'')"
    by (simp add: bob_metadata_def)
  have c: "get_prop bob_metadata ''customerName'' = Str ''Ann''"
    by (simp add: bob_metadata_def get_prop_def)
  from metadata_overrides_fixed_field
         [OF bob_type n bob_metadata_read k m,
          of bob_event good_signature quiet "[''evt_bob'']" good_signature]
       bob_verified m c
  show ?thesis by (simp add: deliver_api_def quiet_def)
qed

text \<open>
  Whatever the sink does, a verified delivery is acknowledged, unless the statements that
  build the record throw: they stand before the \<^verbatim>\<open>try\<close> block.
\<close>

lemma verified_delivery_outcome:
  assumes "constructEvent e b sg (STRIPE_WEBHOOK_SECRET e) = Inr event"
    and "js_get event ''type'' = Inr ty"
  shows "fst (handle_delivery e b sg w) = Responded acknowledged \<or>
         (ty = Str ''checkout.session.completed'' \<and>
          (\<exists>err. normalize e event = Inl err \<and> fst (handle_delivery e b sg w) = Threw err))"
proof (cases "ty = Str ''checkout.session.completed''")
  case False
  from handle_other_kind [OF assms False, of w] show ?thesis by simp
next
  case True
  show ?thesis
  proof (cases "normalize e event")
    case (Inl err)
    from handle_not_normalized [OF assms(1) assms(2) [unfolded True] Inl, of w] True Inl
    show ?thesis by simp
  next
    case (Inr p)
    obtain mail fd where p: "p = (mail, fd)" by (cases p)
    from handle_completed(1) [OF assms(1) assms(2) [unfolded True] Inr [unfolded p], of w]
    show ?thesis by simp
  qed
qed

text \<open>
  C2 fails on the code.  The delivery \<^verbatim>\<open>evt_no_details\<close> passes the signature check of
  \<^verbatim>\<open>src/api/webhook.js\<close>, its event is a \<^verbatim>\<open>checkout.session.completed\<close> whose
  \<^verbatim>\<open>customer_details\<close> is \<^verbatim>\<open>null\<close>, and the handler throws a \<^verbatim>\<open>TypeError\<close> after the first
  log line: it writes no response.
\<close>

theorem verified_delivery_without_customer_details:
  "constructEvent shop_env (Raw ''evt_no_details'') good_signature (STRIPE_WEBHOOK_SECRET shop_env)
     = Inr no_details_event
   \<and> js_get no_details_event ''type'' = Inr (Str ''checkout.session.completed'')
   \<and> get_prop (get_prop (get_prop no_details_event ''data'') ''object'') ''customer_details'' = Null
   \<and> deliver_api ''evt_no_details'' =
       (Threw (Err ''TypeError'' ''Cannot read properties of null (reading 'email')''),
        quiet\<lparr>console :=
          [Info ''Webhook received:'' (Val (Str ''checkout.session.completed''))]\<rparr>)"
  by (simp add: run_defs Let_def)

text \<open>
  C5 as stated fails: the delivery \<^verbatim>\<open>evt_no_email\<close> is verified, its customer details
  have no email, and the endpoint does not treat that as a failure: nothing is written to
  the error console and the row, with an undefined email cell, is sent to the spreadsheet.
\<close>

theorem absent_email_counterexample:
  "constructEvent shop_env (Raw ''evt_no_email'') good_signature (STRIPE_WEBHOOK_SECRET shop_env)
     = Inr no_email_event
   \<and> js_get no_email_event ''type'' = Inr (Str ''checkout.session.completed'')
   \<and> get_prop (get_prop (get_prop (get_prop no_email_event ''data'') ''object'')
        ''customer_details'') ''email'' = Undefined
   \<and> fst (deliver_api ''evt_no_email'') = Responded acknowledged
   \<and> filter is_error (console (snd (deliver_api ''evt_no_email''))) = []
   \<and> length (appended (snd (deliver_api ''evt_no_email''))) = 1
   \<and> concat (concat (map rows (appended (snd (deliver_api ''evt_no_email''))))) =
       [Str ''2024-01-01T00:00:00.000Z'', Str ''Ann'', Undefined, Str ''completed'',
        Str ''pi_1'', Num (Finite 50), Str [], Str [], Str [], Str [], Str [], Str [],
        Str []]"
  by (simp add: run_defs Let_def binary64_50)

text \<open>
  C5, amended.  For a verified \<^verbatim>\<open>checkout.session.completed\<close> event whose session has
  metadata and customer details but no email (\<^verbatim>\<open>undefined\<close> or \<^verbatim>\<open>null\<close>), normalization
  returns a record, whose email is the absent one unless the metadata has a key \<^verbatim>\<open>email\<close>;
  the record is handed to the sink and both endpoints answer 200 \<^verbatim>\<open>{received: true}\<close>.
\<close>

theorem absent_email_is_not_a_failure:
  assumes "js_get event ''type'' = Inr (Str ''checkout.session.completed'')"
    and "session = get_prop (get_prop event ''data'') ''object''"
    and "\<not> nullish (get_prop session ''metadata'')"
    and "\<not> nullish (get_prop session ''customer_details'')"
    and "nullish (get_prop (get_prop session ''customer_details'') ''email'')"
  shows "\<exists>formData.
           normalize e event =
             Inr (get_prop (get_prop session ''customer_details'') ''email'', formData)
         \<and> (fmlookup (own_props (get_prop session ''metadata'')) ''email'' = None \<longrightarrow>
              nullish (get_prop formData ''email''))
         \<and> (constructEvent e (Parsed parsed) sg (STRIPE_WEBHOOK_SECRET e) = Inr event \<longrightarrow>
              fst (server_webhook e \<lparr>parsed_body = parsed, stripe_signature = sg\<rparr> w) =
                Responded acknowledged
              \<and> sink_calls (snd (server_webhook e
                   \<lparr>parsed_body = parsed, stripe_signature = sg\<rparr> w)) =
                sink_calls w @ [formData])
         \<and> (constructEvent e (Raw (concat cs)) sg' (STRIPE_WEBHOOK_SECRET e) = Inr event \<longrightarrow>
              fst (api_webhook e
                   \<lparr>http_method = ''POST'', chunks = cs, signature_header = sg'\<rparr> w) =
                Responded acknowledged
              \<and> sink_calls (snd (api_webhook e
                   \<lparr>http_method = ''POST'', chunks = cs, signature_header = sg'\<rparr> w)) =
                sink_calls w @ [formData])"
proof -
  note n = normalize_shape [OF assms(3,4,2), of e]
  note s = handle_completed(1,2) [OF _ assms(1) n, where b = "Parsed parsed" and sg = sg and w = w]
  note a = handle_completed(1,2)
             [OF _ assms(1) n, where b = "Raw (concat cs)" and sg = sg' and w = w]
  have "fmlookup (own_props (get_prop session ''metadata'')) ''email'' = None \<longrightarrow>
          nullish (get_prop
            (Obj (fmadd
                (fixed_fields e session (get_prop (get_prop session ''metadata'') ''customerName'')
                   (get_prop (get_prop session ''customer_details'') ''email''))
                (fmdrop ''customerName'' (own_props (get_prop session ''metadata'')))))
            ''email'')"
    using assms(5) by (simp add: get_prop_def fixed_fields_def fmlookup_dom_iff)
  then show ?thesis
    using n s a by (simp add: server_webhook_def api_webhook_post)
qed

text \<open>The delivery without an email, received in two chunks.\<close>

lemma no_email_verified:
  "constructEvent shop_env (Raw (concat [''evt_no_'', ''email''])) good_signature
     (STRIPE_WEBHOOK_SECRET shop_env) = Inr no_email_event"
  by (simp add: shop_env_def good_signature_def signed_bodies_def)

lemma no_email_type: "js_get no_email_event ''type'' = Inr (Str ''checkout.session.completed'')"
  by (simp add: no_email_event_def checkout_event_def priced_event_def js_get_def get_prop_def
        nullish_def)

lemma no_email_shape:
  "\<not> nullish (get_prop (get_prop (get_prop no_email_event ''data'') ''object'') ''metadata'')"
  "\<not> nullish (get_prop (get_prop (get_prop no_email_event ''data'') ''object'') ''customer_details'')"
  "nullish (get_prop (get_prop (get_prop (get_prop no_email_event ''data'') ''object'')
      ''customer_details'') ''email'')"
  by (simp_all add: no_email_event_def checkout_event_def priced_event_def get_prop_def
        nullish_def)

theorem absent_email_is_not_a_failure_witness:
  "nullish (get_prop (get_prop (get_prop (get_prop no_email_event ''data'') ''object'')
      ''customer_details'') ''email'')
   \<and> constructEvent shop_env (Raw (concat [''evt_no_'', ''email''])) good_signature
       (STRIPE_WEBHOOK_SECRET shop_env) = Inr no_email_event
   \<and> fst (api_webhook shop_env
        \<lparr>http_method = ''POST'', chunks = [''evt_no_'', ''email''],
         signature_header = good_signature\<rparr> quiet) = Responded acknowledged
   \<and> length (sink_calls (snd (api_webhook shop_env
        \<lparr>http_method = ''POST'', chunks = [''evt_no_'', ''email''],
         signature_header = good_signature\<rparr> quiet))) = 1"
  using absent_email_is_not_a_failure
          [OF no_email_type refl no_email_shape,
           of shop_env no_email_event good_signature quiet "[''evt_no_'', ''email'']"
              good_signature]
        no_email_shape(3) no_email_verified
  by (auto simp: quiet_def)

text \<open>
  C4 as stated fails twice.  The delivery \<^verbatim>\<open>evt_odd_cents\<close> is verified and its
  \<^verbatim>\<open>amount_total\<close> is 2999; the record's \<^verbatim>\<open>paymentAmount\<close> is the binary64 number
  \<open>8441434551552573 / 2 ^ 48\<close>, a little below 29.99, and not 2999 / 100.  And the delivery
  \<^verbatim>\<open>evt_gift\<close> has a metadata key \<^verbatim>\<open>paymentAmount\<close>, whose value takes the place of the
  quotient in the record.
\<close>

theorem exact_amount_counterexample:
  "constructEvent shop_env (Raw ''evt_odd_cents'') good_signature (STRIPE_WEBHOOK_SECRET shop_env)
     = Inr odd_cents_event
   \<and> js_get odd_cents_event ''type'' = Inr (Str ''checkout.session.completed'')
   \<and> get_prop (get_prop (get_prop odd_cents_event ''data'') ''object'') ''amount_total'' =
       Num (Finite 2999)
   \<and> length (sink_calls (snd (deliver_api ''evt_odd_cents''))) = 1
   \<and> get_prop (hd (sink_calls (snd (deliver_api ''evt_odd_cents'')))) ''paymentAmount'' =
       Num (Finite (8441434551552573 / 2 ^ 48))
   \<and> (8441434551552573 / 2 ^ 48 :: rat) \<noteq> 2999 / 100
   \<and> constructEvent shop_env (Raw ''evt_gift'') good_signature (STRIPE_WEBHOOK_SECRET shop_env)
       = Inr gift_event
   \<and> get_prop (get_prop (get_prop gift_event ''data'') ''object'') ''amount_total'' =
       Num (Finite 5000)
   \<and> get_prop (hd (sink_calls (snd (deliver_api ''evt_gift'')))) ''paymentAmount'' =
       Str ''free''"
  by (simp add: run_defs Let_def binary64_50 binary64_2999)

text \<open>
  C4, amended.  For a verified \<^verbatim>\<open>checkout.session.completed\<close> event whose normalization
  returns, whose metadata has no key \<^verbatim>\<open>paymentAmount\<close> and whose \<^verbatim>\<open>amount_total\<close> is an
  integer \<open>a\<close> below \<open>2 ^ 53\<close> in magnitude, the \<^verbatim>\<open>paymentAmount\<close> of the record that both
  endpoints hand to the sink is \<open>a / 100\<close> rounded to binary64: a finite number within the
  relative error \<open>2 ^ - 53\<close> of \<open>a / 100\<close>, and \<open>a / 100\<close> itself whenever \<open>a\<close> is a multiple
  of 100.
\<close>

theorem payment_amount_is_rounded_quotient:
  assumes "js_get event ''type'' = Inr (Str ''checkout.session.completed'')"
    and "normalize e event = Inr (mail, formData)"
    and "session = get_prop (get_prop event ''data'') ''object''"
    and "fmlookup (own_props (get_prop session ''metadata'')) ''paymentAmount'' = None"
    and "get_prop session ''amount_total'' = Num (Finite (of_int a))"
    and "\<bar>a\<bar> < 2 ^ 53"
  shows "(constructEvent e (Parsed parsed) sg (STRIPE_WEBHOOK_SECRET e) = Inr event \<longrightarrow>
            sink_calls (snd (server_webhook e \<lparr>parsed_body = parsed, stripe_signature = sg\<rparr> w)) =
              sink_calls w @ [formData])
       \<and> (constructEvent e (Raw (concat cs)) sg' (STRIPE_WEBHOOK_SECRET e) = Inr event \<longrightarrow>
            sink_calls (snd (api_webhook e
               \<lparr>http_method = ''POST'', chunks = cs, signature_header = sg'\<rparr> w)) =
              sink_calls w @ [formData])
       \<and> get_prop formData ''paymentAmount'' = Num (binary64 (of_int a / 100))
       \<and> (\<exists>q. get_prop formData ''paymentAmount'' = Num (Finite q) \<and>
                \<bar>q - of_int a / 100\<bar> \<le> \<bar>of_int a / 100\<bar> / 2 ^ 53)
       \<and> (100 dvd a \<longrightarrow> get_prop formData ''paymentAmount'' = Num (Finite (of_int a / 100)))"
proof -
  have p: "get_prop formData ''paymentAmount'' = Num (binary64 (of_int a / 100))"
    using normalize_record [OF assms(2)] assms(3,4,5)
    by (simp add: get_prop_def fixed_fields_def fmlookup_dom_iff)
  from quotient_of_cents [OF assms(6)] p
  have q: "\<exists>q. get_prop formData ''paymentAmount'' = Num (Finite q) \<and>
                \<bar>q - of_int a / 100\<bar> \<le> \<bar>of_int a / 100\<bar> / 2 ^ 53"
    by auto
  have d: "100 dvd a \<longrightarrow> get_prop formData ''paymentAmount'' = Num (Finite (of_int a / 100))"
    using quotient_of_whole [OF assms(6)] p by simp
  from handle_completed(2) [OF _ assms(1,2), where b = "Parsed parsed" and sg = sg and w = w]
       handle_completed(2) [OF _ assms(1,2), where b = "Raw (concat cs)" and sg = sg' and w = w]
       p q d
  show ?thesis
    by (simp add: server_webhook_def api_webhook_post)
qed

text \<open>Ann's delivery: 5000 minor units give 50.\<close>

theorem payment_amount_is_rounded_quotient_witness:
  "fmlookup (own_props (get_prop (get_prop (get_prop ann_event ''data'') ''object'') ''metadata''))
     ''paymentAmount'' = None
   \<and> get_prop (get_prop (get_prop ann_event ''data'') ''object'') ''amount_total'' =
       Num (Finite (of_int 5000))
   \<and> \<bar>5000 :: int\<bar> < 2 ^ 53
   \<and> (100 :: int) dvd 5000
   \<and> constructEvent shop_env (Raw (concat [''evt_'', ''ann''])) good_signature
       (STRIPE_WEBHOOK_SECRET shop_env) = Inr ann_event
   \<and> length (sink_calls (snd (deliver_api ''evt_ann''))) = 1
   \<and> get_prop (hd (sink_calls (snd (deliver_api ''evt_ann'')))) ''paymentAmount'' =
       Num (Finite 50)"
proof -
  obtain fd where n: "normalize shop_env ann_event = Inr (Str ''ann@x.com'', fd)"
    using ann_normalized by blast
  have m: "fmlookup (own_props (get_prop (get_prop (get_prop ann_event ''data'') ''object'')
             ''metadata'')) ''paymentAmount'' = None"
    by (simp add: ann_metadata_read)
  have b: "\<bar>5000 :: int\<bar> < 2 ^ 53" by simp
  have d: "(100 :: int) dvd 5000" by simp
  note T = payment_amount_is_rounded_quotient
             [OF ann_type n refl m ann_amount_read b,
              of ann_event good_signature quiet "[''evt_'', ''ann'']" good_signature]
  have s: "sink_calls (snd (deliver_api ''evt_ann'')) = [fd]"
    using T ann_chunks by (simp add: deliver_api_def quiet_def api_webhook_post)
  have a: "get_prop fd ''paymentAmount'' = Num (Finite 50)"
  proof -
    from T have "(100 :: int) dvd 5000 \<longrightarrow>
        get_prop fd ''paymentAmount'' = Num (Finite (of_int 5000 / 100))"
      by blast
    with d show ?thesis by simp
  qed
  from s a m b d ann_amount_read ann_chunks show ?thesis by simp
qed

text \<open>The definitions to unfold when the session creation endpoint is run.\<close>

lemmas checkout_defs =
  create_checkout_session_def checkout_failed_def checkout_params_def missing_fields_def
  js_get_def get_prop_def nullish_def console_log_def console_error_def
  destructure_error_def quoted_def which_nullish_def

text \<open>
  C8 as stated fails: a request that reaches the handler with no parsed body has none of
  the three fields, and the answer is 500 with the message of the \<^verbatim>\<open>TypeError\<close>, not 400.
  The provider is not called.
\<close>

theorem missing_body_counterexample:
  "get_prop Undefined ''productName'' = Undefined
   \<and> get_prop Undefined ''productPrice'' = Undefined
   \<and> get_prop Undefined ''customerEmail'' = Undefined
   \<and> fst (create_checkout_session shop_env Undefined quiet) =
       Responded
         \<lparr>status = 500,
          body = Json (Obj (fmap_of_list
            [(''error'',
              Str ''Cannot destructure property 'productName' of 'req.body' as it is undefined.'')]))\<rparr>
   \<and> provider_calls (snd (create_checkout_session shop_env Undefined quiet)) = []"
  by (simp add: checkout_defs quiet_def Let_def)

text \<open>
  C8, amended.  A session-creation request that lacks \<^verbatim>\<open>productName\<close>, \<^verbatim>\<open>productPrice\<close>
  or \<^verbatim>\<open>customerEmail\<close> never reaches the payment provider.  When the request has a parsed
  body, it is answered with status 400 and the error message, and the only effect is the
  log line of the request; when \<^verbatim>\<open>req.body\<close> is \<^verbatim>\<open>undefined\<close> or \<^verbatim>\<open>null\<close>, it is answered
  with status 500 and the message of the \<^verbatim>\<open>TypeError\<close>, logged as an error.
\<close>

theorem missing_field_never_reaches_provider:
  assumes "get_prop req_body ''productName'' = Undefined \<or>
           get_prop req_body ''productPrice'' = Undefined \<or>
           get_prop req_body ''customerEmail'' = Undefined"
  shows "provider_calls (snd (create_checkout_session e req_body w)) = provider_calls w
       \<and> (\<not> nullish req_body \<longrightarrow>
            create_checkout_session e req_body w =
              (Responded
                 \<lparr>status = 400,
                  body = Json (Obj (fmap_of_list
                    [(''error'',
                      Str ''Missing required fields. Please provide productName, productPrice, and customerEmail.'')]))\<rparr>,
               w\<lparr>console := console w @ [Info ''Received checkout request:'' (Val req_body)]\<rparr>))
       \<and> (nullish req_body \<longrightarrow>
            create_checkout_session e req_body w =
              (Responded
                 \<lparr>status = 500,
                  body = Json (Obj (fmap_of_list
                    [(''error'',
                      Str (message (destructure_error ''productName'' ''req.body'' req_body)))]))\<rparr>,
               w\<lparr>console := console w @
                  [Info ''Received checkout request:'' (Val req_body),
                   Error ''Error creating checkout session:''
                     (Thrown (destructure_error ''productName'' ''req.body'' req_body))]\<rparr>))"
  using assms
  by (auto simp: create_checkout_session_def checkout_failed_def missing_fields_def
        console_log_def console_error_def Let_def)

text \<open>An order without a customer email, and a request without a parsed body.\<close>

theorem missing_field_never_reaches_provider_witness:
  "\<not> nullish no_email_order
   \<and> get_prop no_email_order ''customerEmail'' = Undefined
   \<and> fst (create_checkout_session shop_env no_email_order quiet) =
       Responded
         \<lparr>status = 400,
          body = Json (Obj (fmap_of_list
            [(''error'',
              Str ''Missing required fields. Please provide productName, productPrice, and customerEmail.'')]))\<rparr>
   \<and> provider_calls (snd (create_checkout_session shop_env no_email_order quiet)) = []
   \<and> nullish Null
   \<and> get_prop Null ''productName'' = Undefined
   \<and> fst (create_checkout_session shop_env Null quiet) =
       Responded
         \<lparr>status = 500,
          body = Json (Obj (fmap_of_list
            [(''error'',
              Str ''Cannot destructure property 'productName' of 'req.body' as it is null.'')]))\<rparr>
   \<and> provider_calls (snd (create_checkout_session shop_env Null quiet)) = []"
proof -
  have a: "\<not> nullish no_email_order"
    by (simp add: no_email_order_def nullish_def)
  have b: "get_prop no_email_order ''customerEmail'' = Undefined"
    by (simp add: no_email_order_def get_prop_def)
  have c: "nullish Null"
    by (simp add: nullish_def)
  have d: "get_prop Null ''productName'' = Undefined"
    by (simp add: get_prop_def)
  have m: "message (destructure_error ''productName'' ''req.body'' Null) =
      ''Cannot destructure property 'productName' of 'req.body' as it is null.''"
    by (simp add: destructure_error_def quoted_def which_nullish_def)
  from missing_field_never_reaches_provider [OF disjI2 [OF disjI2 [OF b]], of shop_env quiet]
       missing_field_never_reaches_provider [OF disjI1 [OF d], of shop_env quiet]
       a b c d m
  show ?thesis by (simp add: quiet_def)
qed

text \<open>
  C7 as stated fails twice.  An order with all three fields present and a price of zero is
  answered 400, without a call to the provider: the guard tests the fields for truthiness,
  not for presence.  And an order with three good fields that the provider refuses is
  answered 500 with the provider's message, not with a redirect URL.
\<close>

theorem present_fields_counterexample:
  "fmlookup (own_props zero_price_order) ''productName'' = Some (Str ''Plan'')
   \<and> fmlookup (own_props zero_price_order) ''productPrice'' = Some (Num (Finite 0))
   \<and> fmlookup (own_props zero_price_order) ''customerEmail'' = Some (Str ''ann@x.com'')
   \<and> fst (create_checkout_session shop_env zero_price_order quiet) = Responded missing_fields
   \<and> status missing_fields = 400
   \<and> provider_calls (snd (create_checkout_session shop_env zero_price_order quiet)) = []
   \<and> fst (create_checkout_session declining_env plan_order quiet) =
       Responded
         \<lparr>status = 500,
          body = Json (Obj (fmap_of_list [(''error'', Str ''Invalid integer: 29.99'')]))\<rparr>"
  by (simp add: checkout_defs zero_price_order_def plan_order_def declining_env_def shop_env_def
        quiet_def Let_def)

text \<open>
  C7, amended.  When \<^verbatim>\<open>productName\<close>, \<^verbatim>\<open>productPrice\<close> and \<^verbatim>\<open>customerEmail\<close> are all truthy,
  the endpoint calls the provider once, with the parameters built from the request, and
  never answers 400: when the provider returns a session the answer is 200 with that
  session's \<^verbatim>\<open>url\<close> as \<^verbatim>\<open>checkoutUrl\<close>, and when the provider throws the answer is 500 with
  the message of the exception.
\<close>

theorem truthy_fields_reach_provider:
  assumes "truthy (get_prop req_body ''productName'')"
    and "truthy (get_prop req_body ''productPrice'')"
    and "truthy (get_prop req_body ''customerEmail'')"
    and "params = checkout_params (get_prop req_body ''productName'')
           (get_prop req_body ''productPrice'') (get_prop req_body ''customerName'')
           (get_prop req_body ''customerEmail'') (get_prop req_body ''metadata'')"
  shows "\<exists>r. fst (create_checkout_session e req_body w) = Responded r
       \<and> status r \<noteq> 400
       \<and> provider_calls (snd (create_checkout_session e req_body w)) = provider_calls w @ [params]
       \<and> (\<forall>session. sessions_create e params = Inr session \<and> \<not> nullish session \<longrightarrow>
            r = \<lparr>status = 200,
                 body = Json (Obj (fmap_of_list [(''checkoutUrl'', get_prop session ''url'')]))\<rparr>)
       \<and> (\<forall>err. sessions_create e params = Inl err \<longrightarrow>
            r = \<lparr>status = 500,
                 body = Json (Obj (fmap_of_list [(''error'', Str (message err))]))\<rparr>)"
proof -
  have b: "\<not> nullish req_body"
    using assms(1) by (auto simp: nullish_def get_prop_def)
  show ?thesis
    using assms b
    by (auto simp: create_checkout_session_def checkout_failed_def js_get_def Let_def
          split: sum.splits)
qed

text \<open>The order of the frontend's example.\<close>

theorem truthy_fields_reach_provider_witness:
  "truthy (get_prop plan_order ''productName'')
   \<and> truthy (get_prop plan_order ''productPrice'')
   \<and> truthy (get_prop plan_order ''customerEmail'')
   \<and> fst (create_checkout_session shop_env plan_order quiet) =
       Responded
         \<lparr>status = 200,
          body = Json (Obj (fmap_of_list
            [(''checkoutUrl'', Str ''https://checkout.stripe.com/c/pay/cs_1'')]))\<rparr>
   \<and> length (provider_calls (snd (create_checkout_session shop_env plan_order quiet))) = 1"
proof -
  have a: "truthy (get_prop plan_order ''productName'')"
    and b: "truthy (get_prop plan_order ''productPrice'')"
    and c: "truthy (get_prop plan_order ''customerEmail'')"
    by (simp_all add: plan_order_def get_prop_def)
  have s: "sessions_create shop_env p = Inr shop_session" for p
    by (simp add: shop_env_def)
  have n: "\<not> nullish shop_session" "get_prop shop_session ''url'' = Str ''https://checkout.stripe.com/c/pay/cs_1''"
    by (simp_all add: shop_session_def nullish_def get_prop_def)
  from truthy_fields_reach_provider [OF a b c refl, of shop_env quiet] s n a b c
  show ?thesis by (auto simp: quiet_def)
qed

text \<open>
  C9 as stated fails: the record of the delivery \<^verbatim>\<open>evt_bob\<close> has the pass-through field
  \<^verbatim>\<open>color\<close> with the value \<^verbatim>\<open>red\<close>, and the row sent to the spreadsheet has no such cell.
\<close>

theorem other_fields_counterexample:
  "get_prop (hd (sink_calls (snd (deliver_api ''evt_bob'')))) ''color'' = Str ''red''
   \<and> length (appended (snd (deliver_api ''evt_bob''))) = 1
   \<and> concat (concat (map rows (appended (snd (deliver_api ''evt_bob''))))) =
       [Str ''2024-01-01T00:00:00.000Z'', Str ''Bob'', Str ''ann@x.com'', Str ''completed'',
        Str ''pi_1'', Num (Finite 50), Str [], Str [], Str [], Str [], Str [], Str [],
        Str []]
   \<and> Str ''red'' \<notin> set (concat (concat (map rows (appended (snd (deliver_api ''evt_bob''))))))"
  by (simp add: run_defs Let_def binary64_50)

text \<open>
  C9, amended.  Whenever the sink sends a request to the append operation for a record,
  it sends exactly one, with exactly one row, to the
  range \<^verbatim>\<open>Sheet1!A:M\<close>, and the row has thirteen cells in a fixed order: the record's
  \<^verbatim>\<open>timestamp\<close>, \<^verbatim>\<open>name\<close>, \<^verbatim>\<open>email\<close>, \<^verbatim>\<open>paymentStatus\<close>, \<^verbatim>\<open>paymentId\<close> and \<^verbatim>\<open>paymentAmount\<close> as
  they are, then \<^verbatim>\<open>preferences\<close>, \<^verbatim>\<open>notes\<close>, \<^verbatim>\<open>age\<close>, \<^verbatim>\<open>primaryConcern\<close>,
  \<^verbatim>\<open>additionalConcerns\<close>, \<^verbatim>\<open>goals\<close> and \<^verbatim>\<open>photoCount\<close>, each as it is when truthy and as the
  empty string otherwise.  No other field of the record is written.
\<close>

theorem appended_row_layout:
  assumes "appended (snd (storeDataInGoogleSheets e formData w)) \<noteq> appended w"
  shows "\<exists>req. appended (snd (storeDataInGoogleSheets e formData w)) = appended w @ [req]
       \<and> range req = ''Sheet1!A:M''
       \<and> length (rows req) = 1
       \<and> concat (rows req) =
           [get_prop formData ''timestamp'',
            get_prop formData ''name'',
            get_prop formData ''email'',
            get_prop formData ''paymentStatus'',
            get_prop formData ''paymentId'',
            get_prop formData ''paymentAmount'',
            js_or (get_prop formData ''preferences'') (Str []),
            js_or (get_prop formData ''notes'') (Str []),
            js_or (get_prop formData ''age'') (Str []),
            js_or (get_prop formData ''primaryConcern'') (Str []),
            js_or (get_prop formData ''additionalConcerns'') (Str []),
            js_or (get_prop formData ''goals'') (Str []),
            js_or (get_prop formData ''photoCount'') (Str [])]"
  using assms store_try_appended [of e formData "w\<lparr>sink_calls := sink_calls w @ [formData]\<rparr>"]
  by (auto simp: store_snd(3) sheet_row_def)

text \<open>The record of the specification's scenario, handed to the sink.\<close>

theorem appended_row_layout_witness:
  "appended (snd (storeDataInGoogleSheets shop_env ann_record quiet)) \<noteq> appended quiet
   \<and> length (appended (snd (storeDataInGoogleSheets shop_env ann_record quiet))) = 1
   \<and> concat (concat (map rows (appended (snd (storeDataInGoogleSheets shop_env ann_record
         quiet))))) =
       [Str ''2024-01-01T00:00:00.000Z'', Str ''Ann'', Str ''ann@x.com'', Str ''completed'',
        Str ''pi_1'', Num (Finite 50), Str [], Str ''vip'', Str [], Str [], Str [], Str [],
        Str []]"
proof -
  have h: "appended (snd (storeDataInGoogleSheets shop_env ann_record quiet)) \<noteq> appended quiet"
    by (simp add: fixture_defs handler_defs ann_record_def Let_def)
  have c: "get_prop ann_record ''timestamp'' = Str ''2024-01-01T00:00:00.000Z''"
      "get_prop ann_record ''name'' = Str ''Ann''"
      "get_prop ann_record ''email'' = Str ''ann@x.com''"
      "get_prop ann_record ''paymentStatus'' = Str ''completed''"
      "get_prop ann_record ''paymentId'' = Str ''pi_1''"
      "get_prop ann_record ''paymentAmount'' = Num (Finite 50)"
      "js_or (get_prop ann_record ''preferences'') (Str []) = Str []"
      "js_or (get_prop ann_record ''notes'') (Str []) = Str ''vip''"
      "js_or (get_prop ann_record ''age'') (Str []) = Str []"
      "js_or (get_prop ann_record ''primaryConcern'') (Str []) = Str []"
      "js_or (get_prop ann_record ''additionalConcerns'') (Str []) = Str []"
      "js_or (get_prop ann_record ''goals'') (Str []) = Str []"
      "js_or (get_prop ann_record ''photoCount'') (Str []) = Str []"
    by (simp_all add: ann_record_def get_prop_def js_or_def)
  from appended_row_layout [OF h] h c show ?thesis
    by (auto simp: quiet_def)
qed

end
